theory Spec2Isabelle
  imports Main
begin

section \<open>Values held by form controls\<close>

text \<open>
  The form controls of the results page hold JavaScript values: \<open>null\<close> (the value of a
  control created by \<open>new FormControl()\<close>), \<open>undefined\<close> (a property that the form value
  does not have), a number or a string. Numbers are restricted to the integers, which
  a template literal renders in plain decimal notation (JavaScript does so below
  \<open>10\<^sup>2\<^sup>1\<close>); other numbers and other kinds of value do not occur in what follows.
\<close>

datatype jsval = JNull | JUndefined | JNum int | JStr string

definition digit :: "nat \<Rightarrow> char" where
  "digit d = char_of (48 + d)"

fun decimal :: "nat \<Rightarrow> string" where
  "decimal n = (if n < 10 then [digit n] else decimal (n div 10) @ [digit (n mod 10)])"

declare decimal.simps [simp del]

text \<open>The string that a template literal \<^verbatim>\<open>`${v}`\<close> inserts for a value.\<close>

fun toString :: "jsval \<Rightarrow> string" where
  "toString JNull = ''null''"
| "toString JUndefined = ''undefined''"
| "toString (JNum n) = (if n < 0 then ''-'' @ decimal (nat (- n)) else decimal (nat n))"
| "toString (JStr s) = s"

section \<open>Buttons and parameter forms\<close>

record ResultsButton =
  name :: string
  ngIfKey :: string
  caption :: string

record selectForm =
  formControlName :: string
  formControlOptions :: "string list"

text \<open>
  A form structure refers to one of the seven form groups of the component; the
  reference is kept as the name of the field that holds the group.
\<close>

datatype formGroupRef =
    DispatchPlotOptionsForm
  | CapacityNewPlotOptionsForm
  | CapacityRetiredPlotOptionsForm
  | CapacityTotalPlotOptionsForm
  | EnergyPlotOptionsForm
  | CostPlotOptionsForm
  | CapacityFactorPlotOptionsForm

record ResultsForm =
  formGroup :: formGroupRef
  selectForms :: "selectForm list"
  yMaxFormControlName :: string
  button :: ResultsButton

text \<open>
  Modelled from the spec: the declaration of what \<open>getOptions\<close> delivers is in
  \<^verbatim>\<open>scenario-results.service.ts\<close>, which is not among the sources; the spec gives three
  sequences of strings, and the component reads exactly these three properties.
\<close>

record plotOptions =
  loadZoneOptions :: "string list"
  horizonOptions :: "string list"
  stageOptions :: "string list"

section \<open>The results service as seen from the component\<close>

text \<open>
  Modelled from the spec: \<^verbatim>\<open>scenario-results.service.ts\<close> is not among the sources. The
  component calls twenty of its methods; each call is recorded with its arguments, and the
  observable it returns delivers one value to the callback the component subscribes.
  A table fetch delivers the rows (type \<open>'r\<close>, the \<open>ScenarioResults\<close> of the source), a
  plot fetch an object whose \<open>plotJSON\<close> property (type \<open>'p\<close>) is all the component
  reads, and \<open>getOptions\<close> the option lists.
\<close>

datatype service_method =
    GetOptions
  | GetResultsProjectCapacity
  | GetResultsProjectRetirements
  | GetResultsProjectNewBuild
  | GetResultsProjectDispatch
  | GetResultsProjectCarbon
  | GetResultsTransmissionCapacity
  | GetResultsTransmissionFlows
  | GetResultsImportsExports
  | GetResultsSystemLoadBalance
  | GetResultsSystemRPS
  | GetResultsSystemCarbonCap
  | GetResultsSystemPRM
  | GetResultsDispatchPlot
  | GetResultsCapacityNewPlot
  | GetResultsCapacityRetiredPlot
  | GetResultsCapacityTotalPlot
  | GetResultsEnergyPlot
  | GetResultsCostPlot
  | GetResultsCapacityFactorPlot

datatype call = Call service_method "jsval list"

fun callMethod :: "call \<Rightarrow> service_method" where
  "callMethod (Call m args) = m"

fun callArgs :: "call \<Rightarrow> jsval list" where
  "callArgs (Call m args) = args"

datatype ('r, 'p) response = Rows 'r | PlotAPI 'p | PlotOptions plotOptions

section \<open>The component\<close>

text \<open>
  The fields of \<open>ScenarioResultsComponent\<close>, in the order of the source. A field that is
  \<open>undefined\<close> until its first assignment is an \<open>option\<close>; the three arrays and
  \<open>scenarioID\<close> are assigned by \<open>ngOnInit\<close> before anything reads them. A form group is
  kept as its \<open>value\<close>, an object from control names to values (\<open>JUndefined\<close> for a
  property it does not have).

  The last six fields are the injected collaborators: the \<open>id\<close> parameter of the route,
  the current value of the service's \<open>resultsToViewSubject\<close> and the number of handlers
  this component has subscribed to it, the service calls made so far, the calls whose
  value has not been delivered yet, and the plots handed to \<open>Bokeh.embed.embed_item\<close>.
\<close>

record ('r, 'p) component =
  resultsToShow :: "string option"
  allResultsButtons :: "ResultsButton list"
  allResultsForms :: "ResultsForm list"
  allTables :: "'r list"
  resultsProjectCapacity :: "'r option"
  resultsProjectRetirements :: "'r option"
  resultsProjectNewBuild :: "'r option"
  resultsProjectDispatch :: "'r option"
  resultsProjectCarbon :: "'r option"
  resultsTransmissionCapacity :: "'r option"
  resultsTransmissionFlows :: "'r option"
  resultsImportsExports :: "'r option"
  resultsSystemLoadBalance :: "'r option"
  resultsSystemRPS :: "'r option"
  resultsSystemCarbonCap :: "'r option"
  resultsSystemPRM :: "'r option"
  dispatchPlotOptionsForm :: "string \<Rightarrow> jsval"
  dispatchPlotJSON :: "'p option"
  dispatchPlotHTMLName :: "string option"
  capacityNewPlotOptionsForm :: "string \<Rightarrow> jsval"
  capacityNewPlotJSON :: "'p option"
  capacityNewPlotHTMLName :: "string option"
  capacityRetiredPlotOptionsForm :: "string \<Rightarrow> jsval"
  capacityRetiredPlotJSON :: "'p option"
  capacityRetiredPlotHTMLName :: "string option"
  capacityTotalPlotOptionsForm :: "string \<Rightarrow> jsval"
  capacityTotalPlotJSON :: "'p option"
  capacityTotalPlotHTMLName :: "string option"
  energyPlotOptionsForm :: "string \<Rightarrow> jsval"
  energyPlotJSON :: "'p option"
  energyPlotHTMLName :: "string option"
  costPlotOptionsForm :: "string \<Rightarrow> jsval"
  costPlotJSON :: "'p option"
  costPlotHTMLName :: "string option"
  capacityFactorPlotOptionsForm :: "string \<Rightarrow> jsval"
  capacityFactorPlotJSON :: "'p option"
  capacityFactorPlotHTMLName :: "string option"
  scenarioID :: int
  routeParamsId :: int
  resultsToViewSubject :: string
  resultsToViewSubscribers :: nat
  calls :: "call list"
  inflight :: "call list"
  embedded :: "'p list"

text \<open>\<open>new FormGroup({c1: new FormControl(), ...})\<close>: every declared control is \<open>null\<close>.\<close>

definition newFormGroup :: "string list \<Rightarrow> string \<Rightarrow> jsval" where
  "newFormGroup controls c = (if c \<in> set controls then JNull else JUndefined)"

text \<open>
  The component as its constructor leaves it, for a route with the given scenario id and
  a selection channel holding the given key.
\<close>

definition newComponent :: "int \<Rightarrow> string \<Rightarrow> ('r, 'p) component" where
  "newComponent routeId selection =
    \<lparr> resultsToShow = None,
      allResultsButtons = [],
      allResultsForms = [],
      allTables = [],
      resultsProjectCapacity = None,
      resultsProjectRetirements = None,
      resultsProjectNewBuild = None,
      resultsProjectDispatch = None,
      resultsProjectCarbon = None,
      resultsTransmissionCapacity = None,
      resultsTransmissionFlows = None,
      resultsImportsExports = None,
      resultsSystemLoadBalance = None,
      resultsSystemRPS = None,
      resultsSystemCarbonCap = None,
      resultsSystemPRM = None,
      dispatchPlotOptionsForm =
        newFormGroup [''dispatchPlotLoadZone'', ''dispatchPlotHorizon'', ''dispatchPlotYMax''],
      dispatchPlotJSON = None,
      dispatchPlotHTMLName = None,
      capacityNewPlotOptionsForm =
        newFormGroup [''capacityNewPlotLoadZone'', ''capacityNewPlotYMax''],
      capacityNewPlotJSON = None,
      capacityNewPlotHTMLName = None,
      capacityRetiredPlotOptionsForm =
        newFormGroup [''capacityRetiredPlotLoadZone'', ''capacityRetiredPlotYMax''],
      capacityRetiredPlotJSON = None,
      capacityRetiredPlotHTMLName = None,
      capacityTotalPlotOptionsForm =
        newFormGroup [''capacityTotalPlotLoadZone'', ''capacityTotalPlotYMax''],
      capacityTotalPlotJSON = None,
      capacityTotalPlotHTMLName = None,
      energyPlotOptionsForm =
        newFormGroup [''energyPlotLoadZone'', ''energyPlotStage'', ''energyPlotYMax''],
      energyPlotJSON = None,
      energyPlotHTMLName = None,
      costPlotOptionsForm =
        newFormGroup [''costPlotLoadZone'', ''costPlotStage'', ''costPlotYMax''],
      costPlotJSON = None,
      costPlotHTMLName = None,
      capacityFactorPlotOptionsForm =
        newFormGroup [''capacityFactorPlotLoadZone'', ''capacityFactorPlotStage'',
          ''capacityFactorPlotYMax''],
      capacityFactorPlotJSON = None,
      capacityFactorPlotHTMLName = None,
      scenarioID = 0,
      routeParamsId = routeId,
      resultsToViewSubject = selection,
      resultsToViewSubscribers = 0,
      calls = [],
      inflight = [],
      embedded = [] \<rparr>"

text \<open>
  Modelled from the spec: the methods of the service are not among the sources. Calling
  one and subscribing to what it returns records the call and leaves it in flight until
  its value is delivered (\<open>complete\<close> below); nothing else happens at the call.
\<close>

definition subscribe :: "call \<Rightarrow> ('r, 'p) component \<Rightarrow> ('r, 'p) component" where
  "subscribe c s = s\<lparr>calls := calls s @ [c], inflight := inflight s @ [c]\<rparr>"

subsection \<open>The selection channel\<close>

text \<open>
  Modelled from the spec: \<open>resultsToViewSubject\<close> and \<open>changeResultsToView\<close> belong to the
  service. The source calls the subject a BehaviorSubject; the spec has a subscribing
  handler invoked at once with the current value and again at every change. Every handler
  the component subscribes assigns the value to \<open>resultsToShow\<close>.
\<close>

definition changeResultsToView :: "string \<Rightarrow> ('r, 'p) component \<Rightarrow> ('r, 'p) component" where
  "changeResultsToView key s =
    (let s = s\<lparr>resultsToViewSubject := key\<rparr>
     in if 0 < resultsToViewSubscribers s then s\<lparr>resultsToShow := Some key\<rparr> else s)"

definition getResultsToShow :: "('r, 'p) component \<Rightarrow> ('r, 'p) component" where
  "getResultsToShow s =
    s\<lparr>resultsToViewSubscribers := Suc (resultsToViewSubscribers s),
      resultsToShow := Some (resultsToViewSubject s)\<rparr>"

subsection \<open>Fetching a table\<close>

definition getResultsProjectCapacity :: "int \<Rightarrow> ('r, 'p) component \<Rightarrow> ('r, 'p) component" where
  "getResultsProjectCapacity sid s = subscribe (Call GetResultsProjectCapacity [JNum sid]) s"

definition getResultsProjectRetirements :: "int \<Rightarrow> ('r, 'p) component \<Rightarrow> ('r, 'p) component" where
  "getResultsProjectRetirements sid s = subscribe (Call GetResultsProjectRetirements [JNum sid]) s"

definition getResultsProjectNewBuild :: "int \<Rightarrow> ('r, 'p) component \<Rightarrow> ('r, 'p) component" where
  "getResultsProjectNewBuild sid s = subscribe (Call GetResultsProjectNewBuild [JNum sid]) s"

definition getResultsProjectDispatch :: "int \<Rightarrow> ('r, 'p) component \<Rightarrow> ('r, 'p) component" where
  "getResultsProjectDispatch sid s = subscribe (Call GetResultsProjectDispatch [JNum sid]) s"

definition getResultsProjectCarbon :: "int \<Rightarrow> ('r, 'p) component \<Rightarrow> ('r, 'p) component" where
  "getResultsProjectCarbon sid s = subscribe (Call GetResultsProjectCarbon [JNum sid]) s"

definition getResultsTransmissionCapacity :: "int \<Rightarrow> ('r, 'p) component \<Rightarrow> ('r, 'p) component" where
  "getResultsTransmissionCapacity sid s =
    subscribe (Call GetResultsTransmissionCapacity [JNum sid]) s"

definition getResultsTransmissionFlows :: "int \<Rightarrow> ('r, 'p) component \<Rightarrow> ('r, 'p) component" where
  "getResultsTransmissionFlows sid s = subscribe (Call GetResultsTransmissionFlows [JNum sid]) s"

definition getResultsImportsExports :: "int \<Rightarrow> ('r, 'p) component \<Rightarrow> ('r, 'p) component" where
  "getResultsImportsExports sid s = subscribe (Call GetResultsImportsExports [JNum sid]) s"

definition getResultsSystemLoadBalance :: "int \<Rightarrow> ('r, 'p) component \<Rightarrow> ('r, 'p) component" where
  "getResultsSystemLoadBalance sid s = subscribe (Call GetResultsSystemLoadBalance [JNum sid]) s"

definition getResultsSystemRPS :: "int \<Rightarrow> ('r, 'p) component \<Rightarrow> ('r, 'p) component" where
  "getResultsSystemRPS sid s = subscribe (Call GetResultsSystemRPS [JNum sid]) s"

definition getResultsSystemCarbonCap :: "int \<Rightarrow> ('r, 'p) component \<Rightarrow> ('r, 'p) component" where
  "getResultsSystemCarbonCap sid s = subscribe (Call GetResultsSystemCarbonCap [JNum sid]) s"

definition getResultsSystemPRM :: "int \<Rightarrow> ('r, 'p) component \<Rightarrow> ('r, 'p) component" where
  "getResultsSystemPRM sid s = subscribe (Call GetResultsSystemPRM [JNum sid]) s"

subsection \<open>Fetching a plot\<close>

text \<open>
  Each method reads the plot options from its form, rewrites a \<open>null\<close> y-axis maximum to
  \<open>'default'\<close>, assigns the name of the HTML element, then calls the service.
\<close>

definition getResultsDispatchPlot :: "int \<Rightarrow> ('r, 'p) component \<Rightarrow> ('r, 'p) component" where
  "getResultsDispatchPlot sid s =
    (let loadZone = dispatchPlotOptionsForm s ''dispatchPlotLoadZone'';
         horizon = dispatchPlotOptionsForm s ''dispatchPlotHorizon'';
         yMax = dispatchPlotOptionsForm s ''dispatchPlotYMax'';
         yMax = (if yMax = JNull then JStr ''default'' else yMax);
         s = s\<lparr>dispatchPlotHTMLName :=
                 Some (''dispatchPlot-'' @ toString loadZone @ ''-'' @ toString horizon)\<rparr>
     in subscribe (Call GetResultsDispatchPlot [JNum sid, loadZone, horizon, yMax]) s)"

definition getResultsCapacityNewPlot :: "int \<Rightarrow> ('r, 'p) component \<Rightarrow> ('r, 'p) component" where
  "getResultsCapacityNewPlot sid s =
    (let loadZone = capacityNewPlotOptionsForm s ''capacityNewPlotLoadZone'';
         s = s\<lparr>capacityNewPlotHTMLName := Some (''newCapacityPlot-'' @ toString loadZone)\<rparr>;
         yMax = capacityNewPlotOptionsForm s ''capacityNewPlotYMax'';
         yMax = (if yMax = JNull then JStr ''default'' else yMax)
     in subscribe (Call GetResultsCapacityNewPlot [JNum sid, loadZone, yMax]) s)"

definition getResultsCapacityRetiredPlot :: "int \<Rightarrow> ('r, 'p) component \<Rightarrow> ('r, 'p) component" where
  "getResultsCapacityRetiredPlot sid s =
    (let loadZone = capacityRetiredPlotOptionsForm s ''capacityRetiredPlotLoadZone'';
         yMax = capacityRetiredPlotOptionsForm s ''capacityRetiredPlotYMax'';
         yMax = (if yMax = JNull then JStr ''default'' else yMax);
         s = s\<lparr>capacityRetiredPlotHTMLName :=
                 Some (''retiredCapacityPlot-'' @ toString loadZone)\<rparr>
     in subscribe (Call GetResultsCapacityRetiredPlot [JNum sid, loadZone, yMax]) s)"

definition getResultsCapacityTotalPlot :: "int \<Rightarrow> ('r, 'p) component \<Rightarrow> ('r, 'p) component" where
  "getResultsCapacityTotalPlot sid s =
    (let loadZone = capacityTotalPlotOptionsForm s ''capacityTotalPlotLoadZone'';
         yMax = capacityTotalPlotOptionsForm s ''capacityTotalPlotYMax'';
         yMax = (if yMax = JNull then JStr ''default'' else yMax);
         s = s\<lparr>capacityTotalPlotHTMLName := Some (''allCapacityPlot-'' @ toString loadZone)\<rparr>
     in subscribe (Call GetResultsCapacityTotalPlot [JNum sid, loadZone, yMax]) s)"

definition getResultsEnergyPlot :: "int \<Rightarrow> ('r, 'p) component \<Rightarrow> ('r, 'p) component" where
  "getResultsEnergyPlot sid s =
    (let loadZone = energyPlotOptionsForm s ''energyPlotLoadZone'';
         stage = energyPlotOptionsForm s ''energyPlotStage'';
         yMax = energyPlotOptionsForm s ''energyPlotYMax'';
         yMax = (if yMax = JNull then JStr ''default'' else yMax);
         s = s\<lparr>energyPlotHTMLName :=
                 Some (''EnergyPlot-'' @ toString loadZone @ ''-'' @ toString stage)\<rparr>
     in subscribe (Call GetResultsEnergyPlot [JNum sid, loadZone, stage, yMax]) s)"

definition getResultsCostPlot :: "int \<Rightarrow> ('r, 'p) component \<Rightarrow> ('r, 'p) component" where
  "getResultsCostPlot sid s =
    (let loadZone = costPlotOptionsForm s ''costPlotLoadZone'';
         stage = costPlotOptionsForm s ''costPlotStage'';
         yMax = costPlotOptionsForm s ''costPlotYMax'';
         yMax = (if yMax = JNull then JStr ''default'' else yMax);
         s = s\<lparr>costPlotHTMLName :=
                 Some (''CostPlot-'' @ toString loadZone @ ''-'' @ toString stage)\<rparr>
     in subscribe (Call GetResultsCostPlot [JNum sid, loadZone, stage, yMax]) s)"

definition getResultsCapacityFactorPlot :: "int \<Rightarrow> ('r, 'p) component \<Rightarrow> ('r, 'p) component" where
  "getResultsCapacityFactorPlot sid s =
    (let loadZone = capacityFactorPlotOptionsForm s ''capacityFactorPlotLoadZone'';
         stage = capacityFactorPlotOptionsForm s ''capacityFactorPlotStage'';
         yMax = capacityFactorPlotOptionsForm s ''capacityFactorPlotYMax'';
         yMax = (if yMax = JNull then JStr ''default'' else yMax);
         s = s\<lparr>capacityFactorPlotHTMLName :=
                 Some (''CapFactorPlot-'' @ toString loadZone @ ''-'' @ toString stage)\<rparr>
     in subscribe (Call GetResultsCapacityFactorPlot [JNum sid, loadZone, stage, yMax]) s)"

subsection \<open>Buttons and forms\<close>

definition makeResultsButtons :: "('r, 'p) component \<Rightarrow> ('r, 'p) component" where
  "makeResultsButtons s =
    s\<lparr>allResultsButtons := allResultsButtons s @
      [\<lparr>name = ''showResultsProjectCapacityButton'',
        ngIfKey = ''results-project-capacity'',
        caption = ''Project Capacity''\<rparr>,
       \<lparr>name = ''showResultsProjectRetirementsButton'',
        ngIfKey = ''results-project-retirements'',
        caption = ''Project Retirements''\<rparr>,
       \<lparr>name = ''showResultsProjectNewBuildButton'',
        ngIfKey = ''results-project-new-build'',
        caption = ''Project New Build''\<rparr>,
       \<lparr>name = ''showResultsProjectDispatchButton'',
        ngIfKey = ''results-project-dispatch'',
        caption = ''Project Dispatch''\<rparr>,
       \<lparr>name = ''showResultsProjectCarbonButton'',
        ngIfKey = ''results-project-carbon'',
        caption = ''Project Carbon''\<rparr>,
       \<lparr>name = ''showResultsTransmissionCapacityButton'',
        ngIfKey = ''results-transmission-capacity'',
        caption = ''Transmission Capacity''\<rparr>,
       \<lparr>name = ''showResultsTransmissionFlowsButton'',
        ngIfKey = ''results-transmission-flows'',
        caption = ''Transmission Flows''\<rparr>,
       \<lparr>name = ''showResultsImportsExportsButton'',
        ngIfKey = ''results-imports-exports'',
        caption = ''Imports/Exports''\<rparr>,
       \<lparr>name = ''showResultsSystemLoadBalanceButton'',
        ngIfKey = ''results-system-load-balance'',
        caption = ''Load Balance''\<rparr>,
       \<lparr>name = ''showResultsSystemRPSButton'',
        ngIfKey = ''results-system-rps'',
        caption = ''RPS''\<rparr>,
       \<lparr>name = ''showResultsSystemCarbonCapButton'',
        ngIfKey = ''results-system-carbon-cap'',
        caption = ''Carbon Cap''\<rparr>,
       \<lparr>name = ''showResultsSystemPRMButton'',
        ngIfKey = ''results-system-prm'',
        caption = ''PRM''\<rparr>]\<rparr>"

text \<open>
  The seven form structures that the callback of \<open>makeResultsForms\<close> builds from the
  delivered options (\<open>po\<close> is the source's \<open>plotOptions\<close>), in the order it pushes them.
\<close>

definition formStructures :: "plotOptions \<Rightarrow> ResultsForm list" where
  "formStructures po =
      [\<lparr>formGroup = DispatchPlotOptionsForm,
        selectForms =
           [\<lparr>formControlName = ''dispatchPlotLoadZone'',
             formControlOptions = loadZoneOptions po\<rparr>,
            \<lparr>formControlName = ''dispatchPlotHorizon'',
             formControlOptions = horizonOptions po\<rparr>],
        yMaxFormControlName = ''dispatchPlotYMax'',
        button = \<lparr>name = ''showResultsDispatchPlotButton'',
                  ngIfKey = ''results-dispatch-plot'',
                  caption = ''System Dispatch''\<rparr>\<rparr>,
       \<lparr>formGroup = CapacityNewPlotOptionsForm,
        selectForms =
           [\<lparr>formControlName = ''capacityNewPlotLoadZone'',
             formControlOptions = loadZoneOptions po\<rparr>],
        yMaxFormControlName = ''capacityNewPlotYMax'',
        button = \<lparr>name = ''showResultsCapacityNewPlotButton'',
                  ngIfKey = ''results-capacity-new-plot'',
                  caption = ''New Capacity''\<rparr>\<rparr>,
       \<lparr>formGroup = CapacityRetiredPlotOptionsForm,
        selectForms =
           [\<lparr>formControlName = ''capacityRetiredPlotLoadZone'',
             formControlOptions = loadZoneOptions po\<rparr>],
        yMaxFormControlName = ''capacityRetiredPlotYMax'',
        button = \<lparr>name = ''showResultsCapacityRetiredPlotButton'',
                  ngIfKey = ''results-capacity-retired-plot'',
                  caption = ''Retired Capacity''\<rparr>\<rparr>,
       \<lparr>formGroup = CapacityTotalPlotOptionsForm,
        selectForms =
           [\<lparr>formControlName = ''capacityTotalPlotLoadZone'',
             formControlOptions = loadZoneOptions po\<rparr>],
        yMaxFormControlName = ''capacityTotalPlotYMax'',
        button = \<lparr>name = ''showResultsCapacityTotalPlotButton'',
                  ngIfKey = ''results-capacity-total-plot'',
                  caption = ''Total Capacity''\<rparr>\<rparr>,
       \<lparr>formGroup = EnergyPlotOptionsForm,
        selectForms =
           [\<lparr>formControlName = ''energyPlotLoadZone'',
             formControlOptions = loadZoneOptions po\<rparr>,
            \<lparr>formControlName = ''energyPlotStage'',
             formControlOptions = stageOptions po\<rparr>],
        yMaxFormControlName = ''energyPlotYMax'',
        button = \<lparr>name = ''showResultsEnergyPlotButton'',
                  ngIfKey = ''results-energy-plot'',
                  caption = ''System Energy Mix''\<rparr>\<rparr>,
       \<lparr>formGroup = CostPlotOptionsForm,
        selectForms =
           [\<lparr>formControlName = ''costPlotLoadZone'',
             formControlOptions = loadZoneOptions po\<rparr>,
            \<lparr>formControlName = ''costPlotStage'',
             formControlOptions = stageOptions po\<rparr>],
        yMaxFormControlName = ''costPlotYMax'',
        button = \<lparr>name = ''showResultsCostPlotButton'',
                  ngIfKey = ''results-cost-plot'',
                  caption = ''System Cost''\<rparr>\<rparr>,
       \<lparr>formGroup = CapacityFactorPlotOptionsForm,
        selectForms =
           [\<lparr>formControlName = ''capacityFactorPlotLoadZone'',
             formControlOptions = loadZoneOptions po\<rparr>,
            \<lparr>formControlName = ''capacityFactorPlotStage'',
             formControlOptions = stageOptions po\<rparr>],
        yMaxFormControlName = ''capacityFactorPlotYMax'',
        button = \<lparr>name = ''showResultsCapacityFactorPlotButton'',
                  ngIfKey = ''results-capacity-factor-plot'',
                  caption = ''Capacity Factors''\<rparr>\<rparr>]"

definition makeResultsForms :: "int \<Rightarrow> ('r, 'p) component \<Rightarrow> ('r, 'p) component" where
  "makeResultsForms sid s = subscribe (Call GetOptions [JNum sid]) s"

subsection \<open>The callbacks\<close>

text \<open>
  What the callback subscribed to a call of the given method does with the delivered
  value. A table callback stores the rows in its own field and pushes them to
  \<open>allTables\<close>; a plot callback stores the \<open>plotJSON\<close> and embeds it; the callback of
  \<open>getOptions\<close> pushes the seven form structures. A value of another shape than the
  method delivers is no event of the component (\<open>None\<close>).
\<close>

fun callback ::
  "service_method \<Rightarrow> ('r, 'p) response \<Rightarrow> ('r, 'p) component \<Rightarrow> ('r, 'p) component option" where
  "callback GetOptions v s =
     (case v of
        PlotOptions po \<Rightarrow> Some (s\<lparr>allResultsForms := allResultsForms s @ formStructures po\<rparr>)
      | _ \<Rightarrow> None)"
| "callback GetResultsProjectCapacity v s =
     (case v of
        Rows inputTableRows \<Rightarrow>
          Some (s\<lparr>resultsProjectCapacity := Some inputTableRows,
                  allTables := allTables s @ [inputTableRows]\<rparr>)
      | _ \<Rightarrow> None)"
| "callback GetResultsProjectRetirements v s =
     (case v of
        Rows inputTableRows \<Rightarrow>
          Some (s\<lparr>resultsProjectRetirements := Some inputTableRows,
                  allTables := allTables s @ [inputTableRows]\<rparr>)
      | _ \<Rightarrow> None)"
| "callback GetResultsProjectNewBuild v s =
     (case v of
        Rows inputTableRows \<Rightarrow>
          Some (s\<lparr>resultsProjectNewBuild := Some inputTableRows,
                  allTables := allTables s @ [inputTableRows]\<rparr>)
      | _ \<Rightarrow> None)"
| "callback GetResultsProjectDispatch v s =
     (case v of
        Rows inputTableRows \<Rightarrow>
          Some (s\<lparr>resultsProjectDispatch := Some inputTableRows,
                  allTables := allTables s @ [inputTableRows]\<rparr>)
      | _ \<Rightarrow> None)"
| "callback GetResultsProjectCarbon v s =
     (case v of
        Rows inputTableRows \<Rightarrow>
          Some (s\<lparr>resultsProjectCarbon := Some inputTableRows,
                  allTables := allTables s @ [inputTableRows]\<rparr>)
      | _ \<Rightarrow> None)"
| "callback GetResultsTransmissionCapacity v s =
     (case v of
        Rows inputTableRows \<Rightarrow>
          Some (s\<lparr>resultsTransmissionCapacity := Some inputTableRows,
                  allTables := allTables s @ [inputTableRows]\<rparr>)
      | _ \<Rightarrow> None)"
| "callback GetResultsTransmissionFlows v s =
     (case v of
        Rows inputTableRows \<Rightarrow>
          Some (s\<lparr>resultsTransmissionFlows := Some inputTableRows,
                  allTables := allTables s @ [inputTableRows]\<rparr>)
      | _ \<Rightarrow> None)"
| "callback GetResultsImportsExports v s =
     (case v of
        Rows inputTableRows \<Rightarrow>
          Some (s\<lparr>resultsImportsExports := Some inputTableRows,
                  allTables := allTables s @ [inputTableRows]\<rparr>)
      | _ \<Rightarrow> None)"
| "callback GetResultsSystemLoadBalance v s =
     (case v of
        Rows inputTableRows \<Rightarrow>
          Some (s\<lparr>resultsSystemLoadBalance := Some inputTableRows,
                  allTables := allTables s @ [inputTableRows]\<rparr>)
      | _ \<Rightarrow> None)"
| "callback GetResultsSystemRPS v s =
     (case v of
        Rows inputTableRows \<Rightarrow>
          Some (s\<lparr>resultsSystemRPS := Some inputTableRows,
                  allTables := allTables s @ [inputTableRows]\<rparr>)
      | _ \<Rightarrow> None)"
| "callback GetResultsSystemCarbonCap v s =
     (case v of
        Rows inputTableRows \<Rightarrow>
          Some (s\<lparr>resultsSystemCarbonCap := Some inputTableRows,
                  allTables := allTables s @ [inputTableRows]\<rparr>)
      | _ \<Rightarrow> None)"
| "callback GetResultsSystemPRM v s =
     (case v of
        Rows inputTableRows \<Rightarrow>
          Some (s\<lparr>resultsSystemPRM := Some inputTableRows,
                  allTables := allTables s @ [inputTableRows]\<rparr>)
      | _ \<Rightarrow> None)"
| "callback GetResultsDispatchPlot v s =
     (case v of
        PlotAPI plotJSON \<Rightarrow>
          Some (s\<lparr>dispatchPlotJSON := Some plotJSON, embedded := embedded s @ [plotJSON]\<rparr>)
      | _ \<Rightarrow> None)"
| "callback GetResultsCapacityNewPlot v s =
     (case v of
        PlotAPI plotJSON \<Rightarrow>
          Some (s\<lparr>capacityNewPlotJSON := Some plotJSON, embedded := embedded s @ [plotJSON]\<rparr>)
      | _ \<Rightarrow> None)"
| "callback GetResultsCapacityRetiredPlot v s =
     (case v of
        PlotAPI plotJSON \<Rightarrow>
          Some (s\<lparr>capacityRetiredPlotJSON := Some plotJSON, embedded := embedded s @ [plotJSON]\<rparr>)
      | _ \<Rightarrow> None)"
| "callback GetResultsCapacityTotalPlot v s =
     (case v of
        PlotAPI plotJSON \<Rightarrow>
          Some (s\<lparr>capacityTotalPlotJSON := Some plotJSON, embedded := embedded s @ [plotJSON]\<rparr>)
      | _ \<Rightarrow> None)"
| "callback GetResultsEnergyPlot v s =
     (case v of
        PlotAPI plotJSON \<Rightarrow>
          Some (s\<lparr>energyPlotJSON := Some plotJSON, embedded := embedded s @ [plotJSON]\<rparr>)
      | _ \<Rightarrow> None)"
| "callback GetResultsCostPlot v s =
     (case v of
        PlotAPI plotJSON \<Rightarrow>
          Some (s\<lparr>costPlotJSON := Some plotJSON, embedded := embedded s @ [plotJSON]\<rparr>)
      | _ \<Rightarrow> None)"
| "callback GetResultsCapacityFactorPlot v s =
     (case v of
        PlotAPI plotJSON \<Rightarrow>
          Some (s\<lparr>capacityFactorPlotJSON := Some plotJSON, embedded := embedded s @ [plotJSON]\<rparr>)
      | _ \<Rightarrow> None)"

text \<open>
  Modelled from the spec: a fetch resolves once, at any later moment, and completions are
  applied in the order in which the fetches resolve. Delivery of a value to the \<open>i\<close>-th
  call in flight: the call leaves the list and its callback runs. Without such a call, or
  with a value of the wrong shape, there is no such event (\<open>None\<close>).
\<close>

definition complete ::
  "nat \<Rightarrow> ('r, 'p) response \<Rightarrow> ('r, 'p) component \<Rightarrow> ('r, 'p) component option" where
  "complete i v s =
    (if i < length (inflight s)
     then callback (callMethod (inflight s ! i)) v
            (s\<lparr>inflight := take i (inflight s) @ drop (Suc i) (inflight s)\<rparr>)
     else None)"

subsection \<open>The setup routine\<close>

text \<open>
  One branch of the chain of \<open>if\<close> statements that ends \<open>ngOnInit\<close>: the field
  \<open>resultsToShow\<close> is compared with a key, and on equality the method runs with
  \<open>this.scenarioID\<close>.
\<close>

definition ifResultsToShow ::
  "string \<Rightarrow> (int \<Rightarrow> ('r, 'p) component \<Rightarrow> ('r, 'p) component) \<Rightarrow>
   ('r, 'p) component \<Rightarrow> ('r, 'p) component" where
  "ifResultsToShow key get s = (if resultsToShow s = Some key then get (scenarioID s) s else s)"

text \<open>
  The part of \<open>ngOnInit\<close> before the comment \<^verbatim>\<open>// Get data\<close>. The route delivers its
  parameters at once to the handler subscribed, which assigns \<open>scenarioID\<close>; the callback
  of \<open>makeResultsForms\<close> runs later, when the options arrive.
\<close>

definition makeView :: "('r, 'p) component \<Rightarrow> ('r, 'p) component" where
  "makeView s =
    (let s = s\<lparr>scenarioID := routeParamsId s\<rparr>;
         s = s\<lparr>allResultsButtons := []\<rparr>;
         s = s\<lparr>allResultsForms := []\<rparr>;
         s = makeResultsButtons s;
         s = makeResultsForms (scenarioID s) s;
         s = s\<lparr>allTables := []\<rparr>
     in getResultsToShow s)"

text \<open>
  The part after it: nineteen \<open>if\<close> statements, none with an \<open>else\<close>, run in order.
  Each pairs a key with the method that fetches the data of that view.
\<close>

definition dataBranches ::
  "(string \<times> (int \<Rightarrow> ('r, 'p) component \<Rightarrow> ('r, 'p) component)) list" where
  "dataBranches =
      [(''results-project-capacity'', getResultsProjectCapacity),
       (''results-project-retirements'', getResultsProjectRetirements),
       (''results-project-new-build'', getResultsProjectNewBuild),
       (''results-project-dispatch'', getResultsProjectDispatch),
       (''results-project-carbon'', getResultsProjectCarbon),
       (''results-transmission-capacity'', getResultsTransmissionCapacity),
       (''results-transmission-flows'', getResultsTransmissionFlows),
       (''results-imports-exports'', getResultsImportsExports),
       (''results-system-load-balance'', getResultsSystemLoadBalance),
       (''results-system-rps'', getResultsSystemRPS),
       (''results-system-carbon-cap'', getResultsSystemCarbonCap),
       (''results-system-prm'', getResultsSystemPRM),
       (''results-dispatch-plot'', getResultsDispatchPlot),
       (''results-capacity-new-plot'', getResultsCapacityNewPlot),
       (''results-capacity-retired-plot'', getResultsCapacityRetiredPlot),
       (''results-capacity-total-plot'', getResultsCapacityTotalPlot),
       (''results-energy-plot'', getResultsEnergyPlot),
       (''results-cost-plot'', getResultsCostPlot),
       (''results-capacity-factor-plot'', getResultsCapacityFactorPlot)]"

definition getData :: "('r, 'p) component \<Rightarrow> ('r, 'p) component" where
  "getData s = fold (\<lambda>(key, get). ifResultsToShow key get) dataBranches s"

definition ngOnInit :: "('r, 'p) component \<Rightarrow> ('r, 'p) component" where
  "ngOnInit s = getData (makeView s)"

definition showResults :: "string \<Rightarrow> ('r, 'p) component \<Rightarrow> ('r, 'p) component" where
  "showResults key s = ngOnInit (changeResultsToView key s)"

text \<open>Leaving the page resets the selection; the navigation itself is outside the model.\<close>

definition goBack :: "('r, 'p) component \<Rightarrow> ('r, 'p) component" where
  "goBack s = changeResultsToView '''' s"


text \<open>
  The outcome of \<open>showResults\<close> as a value. The method has no \<open>throw\<close> and runs nothing
  that raises (every array it pushes to is assigned first, every form group exists), so
  its outcome is in every case the state it returns.
\<close>

datatype error = UnknownViewKind

definition activate :: "string \<Rightarrow> ('r, 'p) component \<Rightarrow> error + ('r, 'p) component" where
  "activate key s = Inr (showResults key s)"

subsection \<open>Runs of the page\<close>

text \<open>
  After the page is entered, two kinds of event change the component: a results button is
  pressed, or the value of a call in flight arrives.
\<close>

datatype ('r, 'p) event = ShowResults string | Complete nat "('r, 'p) response"

fun step :: "('r, 'p) event \<Rightarrow> ('r, 'p) component \<Rightarrow> ('r, 'p) component option" where
  "step (ShowResults key) s = Some (showResults key s)"
| "step (Complete i v) s = complete i v s"

fun run :: "('r, 'p) event list \<Rightarrow> ('r, 'p) component \<Rightarrow> ('r, 'p) component option" where
  "run [] s = Some s"
| "run (e # es) s = (case step e s of None \<Rightarrow> None | Some s' \<Rightarrow> run es s')"

section \<open>The views and what the component holds for each\<close>

text \<open>
  The keys of the table views are those of the buttons that \<open>makeResultsButtons\<close> pushes,
  the keys of the plot views those of the buttons inside the form structures; neither
  depends on the state or on the options.
\<close>

definition tableViewKeys :: "string list" where
  "tableViewKeys =
     map ngIfKey
       (allResultsButtons (makeResultsButtons (newComponent 0 [] :: (unit, unit) component)))"

definition plotViewKeys :: "string list" where
  "plotViewKeys =
     map (\<lambda>f. ngIfKey (button f))
       (formStructures \<lparr>loadZoneOptions = [], horizonOptions = [], stageOptions = []\<rparr>)"

definition viewKeys :: "string list" where
  "viewKeys = tableViewKeys @ plotViewKeys"

text \<open>The service method that the branch of \<open>ngOnInit\<close> for a key ends up calling.\<close>

definition viewMethods :: "(string \<times> service_method) list" where
  "viewMethods =
      [(''results-project-capacity'', GetResultsProjectCapacity),
       (''results-project-retirements'', GetResultsProjectRetirements),
       (''results-project-new-build'', GetResultsProjectNewBuild),
       (''results-project-dispatch'', GetResultsProjectDispatch),
       (''results-project-carbon'', GetResultsProjectCarbon),
       (''results-transmission-capacity'', GetResultsTransmissionCapacity),
       (''results-transmission-flows'', GetResultsTransmissionFlows),
       (''results-imports-exports'', GetResultsImportsExports),
       (''results-system-load-balance'', GetResultsSystemLoadBalance),
       (''results-system-rps'', GetResultsSystemRPS),
       (''results-system-carbon-cap'', GetResultsSystemCarbonCap),
       (''results-system-prm'', GetResultsSystemPRM),
       (''results-dispatch-plot'', GetResultsDispatchPlot),
       (''results-capacity-new-plot'', GetResultsCapacityNewPlot),
       (''results-capacity-retired-plot'', GetResultsCapacityRetiredPlot),
       (''results-capacity-total-plot'', GetResultsCapacityTotalPlot),
       (''results-energy-plot'', GetResultsEnergyPlot),
       (''results-cost-plot'', GetResultsCostPlot),
       (''results-capacity-factor-plot'', GetResultsCapacityFactorPlot)]"

definition viewMethod :: "string \<Rightarrow> service_method option" where
  "viewMethod key = map_of viewMethods key"

text \<open>The fields in which the component keeps the result of a view, looked up by key.\<close>

definition tableRows :: "string \<Rightarrow> ('r, 'p) component \<Rightarrow> 'r option" where
  "tableRows key s =
    (case viewMethod key of
       Some GetResultsProjectCapacity \<Rightarrow> resultsProjectCapacity s
     | Some GetResultsProjectRetirements \<Rightarrow> resultsProjectRetirements s
     | Some GetResultsProjectNewBuild \<Rightarrow> resultsProjectNewBuild s
     | Some GetResultsProjectDispatch \<Rightarrow> resultsProjectDispatch s
     | Some GetResultsProjectCarbon \<Rightarrow> resultsProjectCarbon s
     | Some GetResultsTransmissionCapacity \<Rightarrow> resultsTransmissionCapacity s
     | Some GetResultsTransmissionFlows \<Rightarrow> resultsTransmissionFlows s
     | Some GetResultsImportsExports \<Rightarrow> resultsImportsExports s
     | Some GetResultsSystemLoadBalance \<Rightarrow> resultsSystemLoadBalance s
     | Some GetResultsSystemRPS \<Rightarrow> resultsSystemRPS s
     | Some GetResultsSystemCarbonCap \<Rightarrow> resultsSystemCarbonCap s
     | Some GetResultsSystemPRM \<Rightarrow> resultsSystemPRM s
     | _ \<Rightarrow> None)"

definition plotJSON :: "string \<Rightarrow> ('r, 'p) component \<Rightarrow> 'p option" where
  "plotJSON key s =
    (case viewMethod key of
       Some GetResultsDispatchPlot \<Rightarrow> dispatchPlotJSON s
     | Some GetResultsCapacityNewPlot \<Rightarrow> capacityNewPlotJSON s
     | Some GetResultsCapacityRetiredPlot \<Rightarrow> capacityRetiredPlotJSON s
     | Some GetResultsCapacityTotalPlot \<Rightarrow> capacityTotalPlotJSON s
     | Some GetResultsEnergyPlot \<Rightarrow> energyPlotJSON s
     | Some GetResultsCostPlot \<Rightarrow> costPlotJSON s
     | Some GetResultsCapacityFactorPlot \<Rightarrow> capacityFactorPlotJSON s
     | _ \<Rightarrow> None)"

definition htmlName :: "string \<Rightarrow> ('r, 'p) component \<Rightarrow> string option" where
  "htmlName key s =
    (case viewMethod key of
       Some GetResultsDispatchPlot \<Rightarrow> dispatchPlotHTMLName s
     | Some GetResultsCapacityNewPlot \<Rightarrow> capacityNewPlotHTMLName s
     | Some GetResultsCapacityRetiredPlot \<Rightarrow> capacityRetiredPlotHTMLName s
     | Some GetResultsCapacityTotalPlot \<Rightarrow> capacityTotalPlotHTMLName s
     | Some GetResultsEnergyPlot \<Rightarrow> energyPlotHTMLName s
     | Some GetResultsCostPlot \<Rightarrow> costPlotHTMLName s
     | Some GetResultsCapacityFactorPlot \<Rightarrow> capacityFactorPlotHTMLName s
     | _ \<Rightarrow> None)"

definition viewResult ::
  "string \<Rightarrow> ('r, 'p) component \<Rightarrow> 'r option \<times> 'p option \<times> string option" where
  "viewResult key s = (tableRows key s, plotJSON key s, htmlName key s)"

text \<open>The value of the form group that a form structure refers to.\<close>

fun formValue :: "formGroupRef \<Rightarrow> ('r, 'p) component \<Rightarrow> string \<Rightarrow> jsval" where
  "formValue DispatchPlotOptionsForm s = dispatchPlotOptionsForm s"
| "formValue CapacityNewPlotOptionsForm s = capacityNewPlotOptionsForm s"
| "formValue CapacityRetiredPlotOptionsForm s = capacityRetiredPlotOptionsForm s"
| "formValue CapacityTotalPlotOptionsForm s = capacityTotalPlotOptionsForm s"
| "formValue EnergyPlotOptionsForm s = energyPlotOptionsForm s"
| "formValue CostPlotOptionsForm s = costPlotOptionsForm s"
| "formValue CapacityFactorPlotOptionsForm s = capacityFactorPlotOptionsForm s"

text \<open>
  The current values of the select controls of a form structure (load zone, then horizon
  or stage where the view has one), and of its y-axis maximum.
\<close>

definition filterValues :: "ResultsForm \<Rightarrow> ('r, 'p) component \<Rightarrow> jsval list" where
  "filterValues f s = map (\<lambda>c. formValue (formGroup f) s (formControlName c)) (selectForms f)"

definition yMaxValue :: "ResultsForm \<Rightarrow> ('r, 'p) component \<Rightarrow> jsval" where
  "yMaxValue f s = formValue (formGroup f) s (yMaxFormControlName f)"

definition viewKey :: "ResultsForm \<Rightarrow> string" where
  "viewKey f = ngIfKey (button f)"

text \<open>The calls that a step has added to the record of service calls.\<close>

definition issued :: "('r, 'p) component \<Rightarrow> ('r, 'p) component \<Rightarrow> call list" where
  "issued s s' = drop (length (calls s)) (calls s')"

definition isResultFetch :: "call \<Rightarrow> bool" where
  "isResultFetch c = (callMethod c \<noteq> GetOptions)"

text \<open>How often \<open>getOptions\<close> has been called, and the events that press a button.\<close>

definition optionFetches :: "('r, 'p) component \<Rightarrow> nat" where
  "optionFetches s = length (filter (\<lambda>c. callMethod c = GetOptions) (calls s))"

fun isShowResults :: "('r, 'p) event \<Rightarrow> bool" where
  "isShowResults (ShowResults key) = True"
| "isShowResults (Complete i v) = False"

section \<open>Properties\<close>


subsection \<open>The dispatch runs at most one branch\<close>

text \<open>
  No fetch method changes the selection or the scenario id, and the nineteen keys are
  pairwise distinct. The chain of \<open>if\<close> statements therefore does what a single lookup
  of the selection among the keys would do.
\<close>

lemmas table_get_defs =
  getResultsProjectCapacity_def getResultsProjectRetirements_def getResultsProjectNewBuild_def
  getResultsProjectDispatch_def getResultsProjectCarbon_def getResultsTransmissionCapacity_def
  getResultsTransmissionFlows_def getResultsImportsExports_def getResultsSystemLoadBalance_def
  getResultsSystemRPS_def getResultsSystemCarbonCap_def getResultsSystemPRM_def

lemmas plot_get_defs =
  getResultsDispatchPlot_def getResultsCapacityNewPlot_def getResultsCapacityRetiredPlot_def
  getResultsCapacityTotalPlot_def getResultsEnergyPlot_def getResultsCostPlot_def
  getResultsCapacityFactorPlot_def

lemma branch_keeps_selection:
  "(key, get) \<in> set dataBranches \<Longrightarrow>
     resultsToShow (get sid s) = resultsToShow s \<and> scenarioID (get sid s) = scenarioID s"
  unfolding dataBranches_def
  by (auto simp: table_get_defs plot_get_defs subscribe_def Let_def)

lemma distinct_branch_keys:
  "distinct (map fst
     (dataBranches :: (string \<times> (int \<Rightarrow> ('r, 'p) component \<Rightarrow> ('r, 'p) component)) list))"
  by (simp add: dataBranches_def)

lemma fold_branches:
  assumes "distinct (map fst bs)"
    and "\<And>key get sid s. (key, get) \<in> set bs \<Longrightarrow>
           resultsToShow (get sid s) = resultsToShow s \<and> scenarioID (get sid s) = scenarioID s"
  shows "fold (\<lambda>(key, get). ifResultsToShow key get) bs s =
    (case resultsToShow s of
       None \<Rightarrow> s
     | Some key \<Rightarrow> (case map_of bs key of None \<Rightarrow> s | Some get \<Rightarrow> get (scenarioID s) s))"
  using assms
proof (induction bs arbitrary: s)
  case Nil
  then show ?case by (simp split: option.splits)
next
  case (Cons b bs)
  obtain k g where b: "b = (k, g)" by (cases b)
  have keep: "resultsToShow (g sid t) = resultsToShow t \<and> scenarioID (g sid t) = scenarioID t" for sid t
    using Cons.prems(2)[of k g] b by simp
  have IH: "fold (\<lambda>(key, get). ifResultsToShow key get) bs t =
    (case resultsToShow t of
       None \<Rightarrow> t
     | Some key \<Rightarrow> (case map_of bs key of None \<Rightarrow> t | Some get \<Rightarrow> get (scenarioID t) t))" for t
    using Cons.IH[of t] Cons.prems by auto
  have notin: "map_of bs k = None"
    using Cons.prems(1) b by (simp add: map_of_eq_None_iff)
  have unfold: "fold (\<lambda>(key, get). ifResultsToShow key get) (b # bs) s =
      fold (\<lambda>(key, get). ifResultsToShow key get) bs (ifResultsToShow k g s)"
    by (simp add: b)
  show ?case
  proof (cases "resultsToShow s = Some k")
    case True
    then have "ifResultsToShow k g s = g (scenarioID s) s"
      by (simp add: ifResultsToShow_def)
    then show ?thesis
      unfolding unfold IH using True by (simp add: keep notin b)
  next
    case False
    then have "ifResultsToShow k g s = s"
      by (simp add: ifResultsToShow_def)
    then show ?thesis
      unfolding unfold IH using False by (auto simp: b split: option.splits)
  qed
qed

lemma getData_eq:
  "getData s =
    (case resultsToShow s of
       None \<Rightarrow> s
     | Some key \<Rightarrow>
         (case map_of dataBranches key of None \<Rightarrow> s | Some get \<Rightarrow> get (scenarioID s) s))"
  unfolding getData_def
  by (rule fold_branches) (simp_all add: distinct_branch_keys branch_keeps_selection)


lemmas setup_defs =
  makeView_def makeResultsButtons_def makeResultsForms_def getResultsToShow_def
  changeResultsToView_def subscribe_def

lemma ngOnInit_eq:
  "ngOnInit s =
    (case map_of dataBranches (resultsToViewSubject s) of
       None \<Rightarrow> makeView s
     | Some get \<Rightarrow> get (routeParamsId s) (makeView s))"
proof -
  have "resultsToShow (makeView s) = Some (resultsToViewSubject s)"
    and "scenarioID (makeView s) = routeParamsId s"
    by (simp_all add: setup_defs Let_def)
  then show ?thesis
    by (simp add: ngOnInit_def getData_eq split: option.splits)
qed

lemma showResults_eq:
  "showResults key s =
    (case map_of dataBranches key of
       None \<Rightarrow> makeView (changeResultsToView key s)
     | Some get \<Rightarrow> get (routeParamsId s) (makeView (changeResultsToView key s)))"
proof -
  have "resultsToViewSubject (changeResultsToView key s) = key"
    and "routeParamsId (changeResultsToView key s) = routeParamsId s"
    by (simp_all add: changeResultsToView_def Let_def)
  then show ?thesis
    by (simp add: showResults_def ngOnInit_eq split: option.splits)
qed

lemma keys_of_branches:
  "map fst (dataBranches :: (string \<times> (int \<Rightarrow> ('r, 'p) component \<Rightarrow> ('r, 'p) component)) list) = viewKeys"
  by (simp add: dataBranches_def viewKeys_def tableViewKeys_def plotViewKeys_def
      makeResultsButtons_def newComponent_def formStructures_def)

lemma viewKeys_eq: "viewKeys = [''results-project-capacity'', ''results-project-retirements'',
  ''results-project-new-build'', ''results-project-dispatch'', ''results-project-carbon'',
  ''results-transmission-capacity'', ''results-transmission-flows'', ''results-imports-exports'',
  ''results-system-load-balance'', ''results-system-rps'', ''results-system-carbon-cap'',
  ''results-system-prm'', ''results-dispatch-plot'', ''results-capacity-new-plot'',
  ''results-capacity-retired-plot'', ''results-capacity-total-plot'', ''results-energy-plot'',
  ''results-cost-plot'', ''results-capacity-factor-plot'']"
  by (simp add: viewKeys_def tableViewKeys_def plotViewKeys_def
      makeResultsButtons_def newComponent_def formStructures_def)

lemma issued_append: "calls s' = calls s @ cs \<Longrightarrow> issued s s' = cs"
  by (simp add: issued_def)

lemma branch_calls:
  "(key, get) \<in> set dataBranches \<Longrightarrow>
     \<exists>c. calls (get sid s) = calls s @ [c] \<and> isResultFetch c"
  unfolding dataBranches_def
  by (auto simp: table_get_defs plot_get_defs subscribe_def Let_def isResultFetch_def)

lemma calls_changeResultsToView: "calls (changeResultsToView key s) = calls s"
  by (simp add: changeResultsToView_def Let_def)

lemma calls_makeView: "calls (makeView s) = calls s @ [Call GetOptions [JNum (routeParamsId s)]]"
  by (simp add: setup_defs Let_def)

text \<open>
  C8. One pass through \<open>ngOnInit\<close>, entered directly or through \<open>showResults\<close> with any
  key, adds at most one call other than \<open>getOptions\<close> to the record of service calls:
  the selection equals the key of at most one of the nineteen branches.
\<close>

theorem one_pass_at_most_one_result_fetch:
  fixes s :: "('r, 'p) component"
  shows "length (filter isResultFetch (issued s (ngOnInit s))) \<le> 1 \<and>
         length (filter isResultFetch (issued s (showResults key s))) \<le> 1"
proof -
  have pass: "length (filter isResultFetch (issued t (ngOnInit t))) \<le> 1"
    for t :: "('r, 'p) component"
  proof (cases "map_of dataBranches (resultsToViewSubject t)
      :: (int \<Rightarrow> ('r, 'p) component \<Rightarrow> ('r, 'p) component) option")
    case None
    then have "calls (ngOnInit t) = calls t @ [Call GetOptions [JNum (routeParamsId t)]]"
      by (simp add: ngOnInit_eq calls_makeView)
    then show ?thesis
      by (simp add: issued_append isResultFetch_def)
  next
    case (Some get)
    then have "(resultsToViewSubject t, get) \<in> set dataBranches"
      by (rule map_of_SomeD)
    from branch_calls[OF this] obtain c where
      "calls (get (routeParamsId t) (makeView t)) = calls (makeView t) @ [c]"
      by blast
    then have "calls (ngOnInit t) = calls t @ [Call GetOptions [JNum (routeParamsId t)], c]"
      using Some by (simp add: ngOnInit_eq calls_makeView)
    then show ?thesis
      by (simp add: issued_append isResultFetch_def)
  qed
  have "issued s (showResults key s) =
      issued (changeResultsToView key s) (ngOnInit (changeResultsToView key s))"
    by (simp add: issued_def showResults_def calls_changeResultsToView)
  with pass[of s] pass[of "changeResultsToView key s"] show ?thesis
    by simp
qed


subsection \<open>Plot views\<close>

lemma forms_makeView:
  "dispatchPlotOptionsForm (makeView s) = dispatchPlotOptionsForm s"
  "capacityNewPlotOptionsForm (makeView s) = capacityNewPlotOptionsForm s"
  "capacityRetiredPlotOptionsForm (makeView s) = capacityRetiredPlotOptionsForm s"
  "capacityTotalPlotOptionsForm (makeView s) = capacityTotalPlotOptionsForm s"
  "energyPlotOptionsForm (makeView s) = energyPlotOptionsForm s"
  "costPlotOptionsForm (makeView s) = costPlotOptionsForm s"
  "capacityFactorPlotOptionsForm (makeView s) = capacityFactorPlotOptionsForm s"
  by (simp_all add: setup_defs Let_def)

lemma forms_changeResultsToView:
  "dispatchPlotOptionsForm (changeResultsToView key s) = dispatchPlotOptionsForm s"
  "capacityNewPlotOptionsForm (changeResultsToView key s) = capacityNewPlotOptionsForm s"
  "capacityRetiredPlotOptionsForm (changeResultsToView key s) = capacityRetiredPlotOptionsForm s"
  "capacityTotalPlotOptionsForm (changeResultsToView key s) = capacityTotalPlotOptionsForm s"
  "energyPlotOptionsForm (changeResultsToView key s) = energyPlotOptionsForm s"
  "costPlotOptionsForm (changeResultsToView key s) = costPlotOptionsForm s"
  "capacityFactorPlotOptionsForm (changeResultsToView key s) = capacityFactorPlotOptionsForm s"
  by (simp_all add: changeResultsToView_def Let_def)

lemma routeParamsId_changeResultsToView:
  "routeParamsId (changeResultsToView key s) = routeParamsId s"
  by (simp add: changeResultsToView_def Let_def)

lemma showResults_plot:
  "showResults ''results-dispatch-plot'' s =
     getResultsDispatchPlot (routeParamsId s) (makeView (changeResultsToView ''results-dispatch-plot'' s))"
  "showResults ''results-capacity-new-plot'' s =
     getResultsCapacityNewPlot (routeParamsId s) (makeView (changeResultsToView ''results-capacity-new-plot'' s))"
  "showResults ''results-capacity-retired-plot'' s =
     getResultsCapacityRetiredPlot (routeParamsId s) (makeView (changeResultsToView ''results-capacity-retired-plot'' s))"
  "showResults ''results-capacity-total-plot'' s =
     getResultsCapacityTotalPlot (routeParamsId s) (makeView (changeResultsToView ''results-capacity-total-plot'' s))"
  "showResults ''results-energy-plot'' s =
     getResultsEnergyPlot (routeParamsId s) (makeView (changeResultsToView ''results-energy-plot'' s))"
  "showResults ''results-cost-plot'' s =
     getResultsCostPlot (routeParamsId s) (makeView (changeResultsToView ''results-cost-plot'' s))"
  "showResults ''results-capacity-factor-plot'' s =
     getResultsCapacityFactorPlot (routeParamsId s) (makeView (changeResultsToView ''results-capacity-factor-plot'' s))"
  by (simp_all add: showResults_eq dataBranches_def)


lemma calls_plot_get:
  "calls (getResultsDispatchPlot sid s) = calls s @
     [Call GetResultsDispatchPlot
       [JNum sid, dispatchPlotOptionsForm s ''dispatchPlotLoadZone'',
        dispatchPlotOptionsForm s ''dispatchPlotHorizon'',
        if dispatchPlotOptionsForm s ''dispatchPlotYMax'' = JNull then JStr ''default''
        else dispatchPlotOptionsForm s ''dispatchPlotYMax'']]"
  "calls (getResultsCapacityNewPlot sid s) = calls s @
     [Call GetResultsCapacityNewPlot
       [JNum sid, capacityNewPlotOptionsForm s ''capacityNewPlotLoadZone'',
        if capacityNewPlotOptionsForm s ''capacityNewPlotYMax'' = JNull then JStr ''default''
        else capacityNewPlotOptionsForm s ''capacityNewPlotYMax'']]"
  "calls (getResultsCapacityRetiredPlot sid s) = calls s @
     [Call GetResultsCapacityRetiredPlot
       [JNum sid, capacityRetiredPlotOptionsForm s ''capacityRetiredPlotLoadZone'',
        if capacityRetiredPlotOptionsForm s ''capacityRetiredPlotYMax'' = JNull then JStr ''default''
        else capacityRetiredPlotOptionsForm s ''capacityRetiredPlotYMax'']]"
  "calls (getResultsCapacityTotalPlot sid s) = calls s @
     [Call GetResultsCapacityTotalPlot
       [JNum sid, capacityTotalPlotOptionsForm s ''capacityTotalPlotLoadZone'',
        if capacityTotalPlotOptionsForm s ''capacityTotalPlotYMax'' = JNull then JStr ''default''
        else capacityTotalPlotOptionsForm s ''capacityTotalPlotYMax'']]"
  "calls (getResultsEnergyPlot sid s) = calls s @
     [Call GetResultsEnergyPlot
       [JNum sid, energyPlotOptionsForm s ''energyPlotLoadZone'',
        energyPlotOptionsForm s ''energyPlotStage'',
        if energyPlotOptionsForm s ''energyPlotYMax'' = JNull then JStr ''default''
        else energyPlotOptionsForm s ''energyPlotYMax'']]"
  "calls (getResultsCostPlot sid s) = calls s @
     [Call GetResultsCostPlot
       [JNum sid, costPlotOptionsForm s ''costPlotLoadZone'',
        costPlotOptionsForm s ''costPlotStage'',
        if costPlotOptionsForm s ''costPlotYMax'' = JNull then JStr ''default''
        else costPlotOptionsForm s ''costPlotYMax'']]"
  "calls (getResultsCapacityFactorPlot sid s) = calls s @
     [Call GetResultsCapacityFactorPlot
       [JNum sid, capacityFactorPlotOptionsForm s ''capacityFactorPlotLoadZone'',
        capacityFactorPlotOptionsForm s ''capacityFactorPlotStage'',
        if capacityFactorPlotOptionsForm s ''capacityFactorPlotYMax'' = JNull then JStr ''default''
        else capacityFactorPlotOptionsForm s ''capacityFactorPlotYMax'']]"
  by (simp_all add: plot_get_defs subscribe_def Let_def)

lemma viewMethod_plot:
  "viewMethod ''results-dispatch-plot'' = Some GetResultsDispatchPlot"
  "viewMethod ''results-capacity-new-plot'' = Some GetResultsCapacityNewPlot"
  "viewMethod ''results-capacity-retired-plot'' = Some GetResultsCapacityRetiredPlot"
  "viewMethod ''results-capacity-total-plot'' = Some GetResultsCapacityTotalPlot"
  "viewMethod ''results-energy-plot'' = Some GetResultsEnergyPlot"
  "viewMethod ''results-cost-plot'' = Some GetResultsCostPlot"
  "viewMethod ''results-capacity-factor-plot'' = Some GetResultsCapacityFactorPlot"
  by (simp_all add: viewMethod_def viewMethods_def)

lemmas pre_simps =
  calls_makeView forms_makeView calls_changeResultsToView forms_changeResultsToView
  routeParamsId_changeResultsToView

lemma length_formStructures: "length (formStructures po) = 7"
  by (simp add: formStructures_def)

lemma formStructures_cases:
  assumes "f \<in> set (formStructures po)"
  obtains "f = formStructures po ! 0" | "f = formStructures po ! Suc 0" | "f = formStructures po ! 2"
    | "f = formStructures po ! 3" | "f = formStructures po ! 4" | "f = formStructures po ! 5"
    | "f = formStructures po ! 6"
proof -
  from assms obtain i where "i < 7" and "f = formStructures po ! i"
    by (auto simp: in_set_conv_nth length_formStructures)
  moreover from \<open>i < 7\<close> have "i = 0 \<or> i = Suc 0 \<or> i = 2 \<or> i = 3 \<or> i = 4 \<or> i = 5 \<or> i = 6"
    by arith
  ultimately show ?thesis
    using that by blast
qed


lemma formStructures_nth:
  "formGroup (formStructures po ! 0) = DispatchPlotOptionsForm"
  "map formControlName (selectForms (formStructures po ! 0)) = [''dispatchPlotLoadZone'', ''dispatchPlotHorizon'']"
  "yMaxFormControlName (formStructures po ! 0) = ''dispatchPlotYMax''"
  "viewKey (formStructures po ! 0) = ''results-dispatch-plot''"
  "formGroup (formStructures po ! Suc 0) = CapacityNewPlotOptionsForm"
  "map formControlName (selectForms (formStructures po ! Suc 0)) = [''capacityNewPlotLoadZone'']"
  "yMaxFormControlName (formStructures po ! Suc 0) = ''capacityNewPlotYMax''"
  "viewKey (formStructures po ! Suc 0) = ''results-capacity-new-plot''"
  "formGroup (formStructures po ! 2) = CapacityRetiredPlotOptionsForm"
  "map formControlName (selectForms (formStructures po ! 2)) = [''capacityRetiredPlotLoadZone'']"
  "yMaxFormControlName (formStructures po ! 2) = ''capacityRetiredPlotYMax''"
  "viewKey (formStructures po ! 2) = ''results-capacity-retired-plot''"
  "formGroup (formStructures po ! 3) = CapacityTotalPlotOptionsForm"
  "map formControlName (selectForms (formStructures po ! 3)) = [''capacityTotalPlotLoadZone'']"
  "yMaxFormControlName (formStructures po ! 3) = ''capacityTotalPlotYMax''"
  "viewKey (formStructures po ! 3) = ''results-capacity-total-plot''"
  "formGroup (formStructures po ! 4) = EnergyPlotOptionsForm"
  "map formControlName (selectForms (formStructures po ! 4)) = [''energyPlotLoadZone'', ''energyPlotStage'']"
  "yMaxFormControlName (formStructures po ! 4) = ''energyPlotYMax''"
  "viewKey (formStructures po ! 4) = ''results-energy-plot''"
  "formGroup (formStructures po ! 5) = CostPlotOptionsForm"
  "map formControlName (selectForms (formStructures po ! 5)) = [''costPlotLoadZone'', ''costPlotStage'']"
  "yMaxFormControlName (formStructures po ! 5) = ''costPlotYMax''"
  "viewKey (formStructures po ! 5) = ''results-cost-plot''"
  "formGroup (formStructures po ! 6) = CapacityFactorPlotOptionsForm"
  "map formControlName (selectForms (formStructures po ! 6)) = [''capacityFactorPlotLoadZone'', ''capacityFactorPlotStage'']"
  "yMaxFormControlName (formStructures po ! 6) = ''capacityFactorPlotYMax''"
  "viewKey (formStructures po ! 6) = ''results-capacity-factor-plot''"
  by (simp_all add: formStructures_def viewKey_def)


lemma filterValues_eq:
  "filterValues f s = map (formValue (formGroup f) s) (map formControlName (selectForms f))"
  by (simp add: filterValues_def comp_def)

lemma calls_showResults_plot:
  fixes s :: "('r, 'p) component"
  assumes "f \<in> set (formStructures po)"
  shows "\<exists>m. viewMethod (viewKey f) = Some m \<and>
    calls (showResults (viewKey f) s) = calls s @
      [Call GetOptions [JNum (routeParamsId s)],
       Call m (JNum (routeParamsId s) # filterValues f s @
         [if yMaxValue f s = JNull then JStr ''default'' else yMaxValue f s])]"
  using assms
  by (cases rule: formStructures_cases)
    (simp_all add: formStructures_nth filterValues_eq yMaxValue_def
      viewMethod_plot showResults_plot calls_plot_get pre_simps)

lemma name_plot_get:
  "dispatchPlotHTMLName (getResultsDispatchPlot sid s) =
     Some (''dispatchPlot-'' @ toString (dispatchPlotOptionsForm s ''dispatchPlotLoadZone'') @ ''-'' @ toString (dispatchPlotOptionsForm s ''dispatchPlotHorizon''))"
  "capacityNewPlotHTMLName (getResultsCapacityNewPlot sid s) =
     Some (''newCapacityPlot-'' @ toString (capacityNewPlotOptionsForm s ''capacityNewPlotLoadZone''))"
  "capacityRetiredPlotHTMLName (getResultsCapacityRetiredPlot sid s) =
     Some (''retiredCapacityPlot-'' @ toString (capacityRetiredPlotOptionsForm s ''capacityRetiredPlotLoadZone''))"
  "capacityTotalPlotHTMLName (getResultsCapacityTotalPlot sid s) =
     Some (''allCapacityPlot-'' @ toString (capacityTotalPlotOptionsForm s ''capacityTotalPlotLoadZone''))"
  "energyPlotHTMLName (getResultsEnergyPlot sid s) =
     Some (''EnergyPlot-'' @ toString (energyPlotOptionsForm s ''energyPlotLoadZone'') @ ''-'' @ toString (energyPlotOptionsForm s ''energyPlotStage''))"
  "costPlotHTMLName (getResultsCostPlot sid s) =
     Some (''CostPlot-'' @ toString (costPlotOptionsForm s ''costPlotLoadZone'') @ ''-'' @ toString (costPlotOptionsForm s ''costPlotStage''))"
  "capacityFactorPlotHTMLName (getResultsCapacityFactorPlot sid s) =
     Some (''CapFactorPlot-'' @ toString (capacityFactorPlotOptionsForm s ''capacityFactorPlotLoadZone'') @ ''-'' @ toString (capacityFactorPlotOptionsForm s ''capacityFactorPlotStage''))"
  by (simp_all add: plot_get_defs subscribe_def Let_def)

lemma json_plot_get:
  "dispatchPlotJSON (getResultsDispatchPlot sid s) = dispatchPlotJSON s"
  "capacityNewPlotJSON (getResultsCapacityNewPlot sid s) = capacityNewPlotJSON s"
  "capacityRetiredPlotJSON (getResultsCapacityRetiredPlot sid s) = capacityRetiredPlotJSON s"
  "capacityTotalPlotJSON (getResultsCapacityTotalPlot sid s) = capacityTotalPlotJSON s"
  "energyPlotJSON (getResultsEnergyPlot sid s) = energyPlotJSON s"
  "costPlotJSON (getResultsCostPlot sid s) = costPlotJSON s"
  "capacityFactorPlotJSON (getResultsCapacityFactorPlot sid s) = capacityFactorPlotJSON s"
  by (simp_all add: plot_get_defs subscribe_def Let_def)

lemma json_makeView:
  "dispatchPlotJSON (makeView s) = dispatchPlotJSON s"
  "capacityNewPlotJSON (makeView s) = capacityNewPlotJSON s"
  "capacityRetiredPlotJSON (makeView s) = capacityRetiredPlotJSON s"
  "capacityTotalPlotJSON (makeView s) = capacityTotalPlotJSON s"
  "energyPlotJSON (makeView s) = energyPlotJSON s"
  "costPlotJSON (makeView s) = costPlotJSON s"
  "capacityFactorPlotJSON (makeView s) = capacityFactorPlotJSON s"
  by (simp_all add: setup_defs Let_def)

lemma json_changeResultsToView:
  "dispatchPlotJSON (changeResultsToView key s) = dispatchPlotJSON s"
  "capacityNewPlotJSON (changeResultsToView key s) = capacityNewPlotJSON s"
  "capacityRetiredPlotJSON (changeResultsToView key s) = capacityRetiredPlotJSON s"
  "capacityTotalPlotJSON (changeResultsToView key s) = capacityTotalPlotJSON s"
  "energyPlotJSON (changeResultsToView key s) = energyPlotJSON s"
  "costPlotJSON (changeResultsToView key s) = costPlotJSON s"
  "capacityFactorPlotJSON (changeResultsToView key s) = capacityFactorPlotJSON s"
  by (simp_all add: changeResultsToView_def Let_def)

lemma inflight_plot_get:
  "inflight (getResultsDispatchPlot sid s) = inflight s @ [last (calls (getResultsDispatchPlot sid s))]"
  "inflight (getResultsCapacityNewPlot sid s) = inflight s @ [last (calls (getResultsCapacityNewPlot sid s))]"
  "inflight (getResultsCapacityRetiredPlot sid s) = inflight s @ [last (calls (getResultsCapacityRetiredPlot sid s))]"
  "inflight (getResultsCapacityTotalPlot sid s) = inflight s @ [last (calls (getResultsCapacityTotalPlot sid s))]"
  "inflight (getResultsEnergyPlot sid s) = inflight s @ [last (calls (getResultsEnergyPlot sid s))]"
  "inflight (getResultsCostPlot sid s) = inflight s @ [last (calls (getResultsCostPlot sid s))]"
  "inflight (getResultsCapacityFactorPlot sid s) = inflight s @ [last (calls (getResultsCapacityFactorPlot sid s))]"
  by (simp_all add: plot_get_defs subscribe_def Let_def)

lemma htmlName_plot:
  "htmlName ''results-dispatch-plot'' s = dispatchPlotHTMLName s"
  "htmlName ''results-capacity-new-plot'' s = capacityNewPlotHTMLName s"
  "htmlName ''results-capacity-retired-plot'' s = capacityRetiredPlotHTMLName s"
  "htmlName ''results-capacity-total-plot'' s = capacityTotalPlotHTMLName s"
  "htmlName ''results-energy-plot'' s = energyPlotHTMLName s"
  "htmlName ''results-cost-plot'' s = costPlotHTMLName s"
  "htmlName ''results-capacity-factor-plot'' s = capacityFactorPlotHTMLName s"
  by (simp_all add: htmlName_def viewMethod_plot)

lemma plotJSON_plot:
  "plotJSON ''results-dispatch-plot'' s = dispatchPlotJSON s"
  "plotJSON ''results-capacity-new-plot'' s = capacityNewPlotJSON s"
  "plotJSON ''results-capacity-retired-plot'' s = capacityRetiredPlotJSON s"
  "plotJSON ''results-capacity-total-plot'' s = capacityTotalPlotJSON s"
  "plotJSON ''results-energy-plot'' s = energyPlotJSON s"
  "plotJSON ''results-cost-plot'' s = costPlotJSON s"
  "plotJSON ''results-capacity-factor-plot'' s = capacityFactorPlotJSON s"
  by (simp_all add: plotJSON_def viewMethod_plot)

lemma name_showResults_plot:
  "dispatchPlotHTMLName (showResults ''results-dispatch-plot'' s) =
     Some (''dispatchPlot-'' @ toString (dispatchPlotOptionsForm s ''dispatchPlotLoadZone'') @ ''-'' @ toString (dispatchPlotOptionsForm s ''dispatchPlotHorizon''))"
  "capacityNewPlotHTMLName (showResults ''results-capacity-new-plot'' s) =
     Some (''newCapacityPlot-'' @ toString (capacityNewPlotOptionsForm s ''capacityNewPlotLoadZone''))"
  "capacityRetiredPlotHTMLName (showResults ''results-capacity-retired-plot'' s) =
     Some (''retiredCapacityPlot-'' @ toString (capacityRetiredPlotOptionsForm s ''capacityRetiredPlotLoadZone''))"
  "capacityTotalPlotHTMLName (showResults ''results-capacity-total-plot'' s) =
     Some (''allCapacityPlot-'' @ toString (capacityTotalPlotOptionsForm s ''capacityTotalPlotLoadZone''))"
  "energyPlotHTMLName (showResults ''results-energy-plot'' s) =
     Some (''EnergyPlot-'' @ toString (energyPlotOptionsForm s ''energyPlotLoadZone'') @ ''-'' @ toString (energyPlotOptionsForm s ''energyPlotStage''))"
  "costPlotHTMLName (showResults ''results-cost-plot'' s) =
     Some (''CostPlot-'' @ toString (costPlotOptionsForm s ''costPlotLoadZone'') @ ''-'' @ toString (costPlotOptionsForm s ''costPlotStage''))"
  "capacityFactorPlotHTMLName (showResults ''results-capacity-factor-plot'' s) =
     Some (''CapFactorPlot-'' @ toString (capacityFactorPlotOptionsForm s ''capacityFactorPlotLoadZone'') @ ''-'' @ toString (capacityFactorPlotOptionsForm s ''capacityFactorPlotStage''))"
  by (simp_all add: showResults_plot name_plot_get forms_makeView forms_changeResultsToView)

text \<open>
  C2. For every form structure, that is for every plot view, pressing its button issues
  \<open>getOptions\<close> and then the plot fetch of the view, whose arguments are the scenario
  id, the values of the select controls exactly as the form holds them (\<open>null\<close>
  included), and the y-axis maximum, replaced by \<open>'default'\<close> when it is \<open>null\<close> and
  passed as it is otherwise.
\<close>

theorem ymax_null_becomes_default:
  fixes s :: "('r, 'p) component"
  assumes "f \<in> set (formStructures po)"
  shows "\<exists>m. viewMethod (viewKey f) = Some m \<and>
    issued s (showResults (viewKey f) s) =
      [Call GetOptions [JNum (routeParamsId s)],
       Call m (JNum (routeParamsId s) # filterValues f s @
         [if yMaxValue f s = JNull then JStr ''default'' else yMaxValue f s])]"
  using calls_showResults_plot[OF assms, of s]
  by (auto simp: issued_def)

text \<open>
  C9. The rewriting to \<open>'default'\<close> happens for \<open>null\<close> alone: any other y-axis maximum,
  such as \<open>undefined\<close>, \<open>0\<close> or the empty string, is the last argument of the plot fetch
  as it stands.
\<close>

theorem ymax_only_null_is_rewritten:
  fixes s :: "('r, 'p) component"
  assumes "f \<in> set (formStructures po)"
    and "yMaxValue f s \<noteq> JNull"
  shows "\<exists>m. viewMethod (viewKey f) = Some m \<and>
    issued s (showResults (viewKey f) s) =
      [Call GetOptions [JNum (routeParamsId s)],
       Call m (JNum (routeParamsId s) # filterValues f s @ [yMaxValue f s])]"
  using calls_showResults_plot[OF assms(1), of s] assms(2)
  by (auto simp: issued_def)

lemma ngOnInit_new: "ngOnInit (newComponent sid '''') = makeView (newComponent sid '''')"
  by (simp add: ngOnInit_eq dataBranches_def newComponent_def)

lemma makeView_new:
  "routeParamsId (makeView (newComponent sid sel)) = sid"
  "calls (makeView (newComponent sid sel)) = [Call GetOptions [JNum sid]]"
  "inflight (makeView (newComponent sid sel)) = [Call GetOptions [JNum sid]]"
  "allTables (makeView (newComponent sid sel)) = []"
  by (simp_all add: setup_defs Let_def newComponent_def)

theorem ymax_null_becomes_default_witness:
  "formStructures \<lparr>loadZoneOptions = [''ZoneA''], horizonOptions = [''2030''], stageOptions = [''1'']\<rparr> ! 4
     \<in> set (formStructures \<lparr>loadZoneOptions = [''ZoneA''], horizonOptions = [''2030''], stageOptions = [''1'']\<rparr>) \<and>
   issued
     ((ngOnInit (newComponent 42 '''') :: (nat, nat) component)
        \<lparr>energyPlotOptionsForm :=
           (\<lambda>c. JUndefined)(''energyPlotLoadZone'' := JStr ''ZoneA'', ''energyPlotStage'' := JNull,
             ''energyPlotYMax'' := JNull)\<rparr>)
     (showResults ''results-energy-plot''
       ((ngOnInit (newComponent 42 '''') :: (nat, nat) component)
          \<lparr>energyPlotOptionsForm :=
             (\<lambda>c. JUndefined)(''energyPlotLoadZone'' := JStr ''ZoneA'', ''energyPlotStage'' := JNull,
               ''energyPlotYMax'' := JNull)\<rparr>)) =
     [Call GetOptions [JNum 42],
      Call GetResultsEnergyPlot [JNum 42, JStr ''ZoneA'', JNull, JStr ''default'']]"
proof -
  let ?po = "\<lparr>loadZoneOptions = [''ZoneA''], horizonOptions = [''2030''], stageOptions = [''1'']\<rparr>"
  have mem: "formStructures ?po ! 4 \<in> set (formStructures ?po)"
    by (simp add: length_formStructures)
  let ?s = "(ngOnInit (newComponent 42 []) :: (nat, nat) component)
        \<lparr>energyPlotOptionsForm :=
           (\<lambda>c. JUndefined)(''energyPlotLoadZone'' := JStr ''ZoneA'', ''energyPlotStage'' := JNull,
             ''energyPlotYMax'' := JNull)\<rparr>"
  from ymax_null_becomes_default[OF mem, of ?s] mem show ?thesis
    by (simp add: formStructures_nth viewMethod_plot filterValues_eq yMaxValue_def
        ngOnInit_new makeView_new)
qed

theorem ymax_only_null_is_rewritten_witness:
  "formStructures \<lparr>loadZoneOptions = [], horizonOptions = [], stageOptions = []\<rparr> ! 0
     \<in> set (formStructures \<lparr>loadZoneOptions = [], horizonOptions = [], stageOptions = []\<rparr>) \<and>
   map (\<lambda>y. issued
       ((ngOnInit (newComponent 42 '''') :: (nat, nat) component)
          \<lparr>dispatchPlotOptionsForm :=
             (\<lambda>c. JUndefined)(''dispatchPlotLoadZone'' := JNull, ''dispatchPlotHorizon'' := JNull,
               ''dispatchPlotYMax'' := y)\<rparr>)
       (showResults ''results-dispatch-plot''
         ((ngOnInit (newComponent 42 '''') :: (nat, nat) component)
            \<lparr>dispatchPlotOptionsForm :=
               (\<lambda>c. JUndefined)(''dispatchPlotLoadZone'' := JNull, ''dispatchPlotHorizon'' := JNull,
                 ''dispatchPlotYMax'' := y)\<rparr>)))
     [JUndefined, JNum 0, JStr ''''] =
     [[Call GetOptions [JNum 42], Call GetResultsDispatchPlot [JNum 42, JNull, JNull, JUndefined]],
      [Call GetOptions [JNum 42], Call GetResultsDispatchPlot [JNum 42, JNull, JNull, JNum 0]],
      [Call GetOptions [JNum 42], Call GetResultsDispatchPlot [JNum 42, JNull, JNull, JStr '''']]]"
proof -
  let ?po = "\<lparr>loadZoneOptions = [], horizonOptions = [], stageOptions = []\<rparr>"
  let ?s = "\<lambda>y. (ngOnInit (newComponent 42 '''') :: (nat, nat) component)
          \<lparr>dispatchPlotOptionsForm :=
             (\<lambda>c. JUndefined)(''dispatchPlotLoadZone'' := JNull, ''dispatchPlotHorizon'' := JNull,
               ''dispatchPlotYMax'' := y)\<rparr>"
  have mem: "formStructures ?po ! 0 \<in> set (formStructures ?po)"
    by (simp add: length_formStructures)
  have y: "yMaxValue (formStructures ?po ! 0) (?s y) = y" for y
    by (simp add: formStructures_nth yMaxValue_def)
  have "y \<noteq> JNull \<Longrightarrow>
      issued (?s y) (showResults ''results-dispatch-plot'' (?s y)) =
        [Call GetOptions [JNum 42], Call GetResultsDispatchPlot [JNum 42, JNull, JNull, y]]" for y
    using ymax_only_null_is_rewritten[OF mem, of "?s y"]
    by (simp add: formStructures_nth viewMethod_plot filterValues_eq yMaxValue_def
        ngOnInit_new makeView_new)
  from this[of JUndefined] this[of "JNum 0"] this[of "JStr ''''"] mem show ?thesis
    by simp
qed

lemma json_showResults_plot:
  "dispatchPlotJSON (showResults ''results-dispatch-plot'' s) = dispatchPlotJSON s"
  "capacityNewPlotJSON (showResults ''results-capacity-new-plot'' s) = capacityNewPlotJSON s"
  "capacityRetiredPlotJSON (showResults ''results-capacity-retired-plot'' s) = capacityRetiredPlotJSON s"
  "capacityTotalPlotJSON (showResults ''results-capacity-total-plot'' s) = capacityTotalPlotJSON s"
  "energyPlotJSON (showResults ''results-energy-plot'' s) = energyPlotJSON s"
  "costPlotJSON (showResults ''results-cost-plot'' s) = costPlotJSON s"
  "capacityFactorPlotJSON (showResults ''results-capacity-factor-plot'' s) = capacityFactorPlotJSON s"
  by (simp_all add: showResults_plot json_plot_get json_makeView json_changeResultsToView)

lemma inflight_showResults_plot:
  "callMethod (last (inflight (showResults ''results-dispatch-plot'' s))) = GetResultsDispatchPlot"
  "callMethod (last (inflight (showResults ''results-capacity-new-plot'' s))) = GetResultsCapacityNewPlot"
  "callMethod (last (inflight (showResults ''results-capacity-retired-plot'' s))) = GetResultsCapacityRetiredPlot"
  "callMethod (last (inflight (showResults ''results-capacity-total-plot'' s))) = GetResultsCapacityTotalPlot"
  "callMethod (last (inflight (showResults ''results-energy-plot'' s))) = GetResultsEnergyPlot"
  "callMethod (last (inflight (showResults ''results-cost-plot'' s))) = GetResultsCostPlot"
  "callMethod (last (inflight (showResults ''results-capacity-factor-plot'' s))) = GetResultsCapacityFactorPlot"
  by (simp_all add: showResults_plot inflight_plot_get calls_plot_get)

text \<open>
  C10. When \<open>showResults\<close> returns for the key of a plot view, nothing has been delivered
  yet: the plot fetch is the last call in flight and the stored \<open>plotJSON\<close> is what it
  was, but the name of the HTML element is already the one built from the values the
  form holds at that moment. The name therefore stands whether or not the fetch ever
  completes.
\<close>

theorem name_assigned_before_fetch_completes:
  fixes s :: "('r, 'p) component"
  shows
    "dispatchPlotHTMLName (showResults ''results-dispatch-plot'' s) =
       Some (''dispatchPlot-'' @ toString (dispatchPlotOptionsForm s ''dispatchPlotLoadZone'') @ ''-'' @ toString (dispatchPlotOptionsForm s ''dispatchPlotHorizon'')) \<and>
     dispatchPlotJSON (showResults ''results-dispatch-plot'' s) = dispatchPlotJSON s \<and>
     callMethod (last (inflight (showResults ''results-dispatch-plot'' s))) = GetResultsDispatchPlot \<and>
     capacityNewPlotHTMLName (showResults ''results-capacity-new-plot'' s) =
       Some (''newCapacityPlot-'' @ toString (capacityNewPlotOptionsForm s ''capacityNewPlotLoadZone'')) \<and>
     capacityNewPlotJSON (showResults ''results-capacity-new-plot'' s) = capacityNewPlotJSON s \<and>
     callMethod (last (inflight (showResults ''results-capacity-new-plot'' s))) = GetResultsCapacityNewPlot \<and>
     capacityRetiredPlotHTMLName (showResults ''results-capacity-retired-plot'' s) =
       Some (''retiredCapacityPlot-'' @ toString (capacityRetiredPlotOptionsForm s ''capacityRetiredPlotLoadZone'')) \<and>
     capacityRetiredPlotJSON (showResults ''results-capacity-retired-plot'' s) = capacityRetiredPlotJSON s \<and>
     callMethod (last (inflight (showResults ''results-capacity-retired-plot'' s))) = GetResultsCapacityRetiredPlot \<and>
     capacityTotalPlotHTMLName (showResults ''results-capacity-total-plot'' s) =
       Some (''allCapacityPlot-'' @ toString (capacityTotalPlotOptionsForm s ''capacityTotalPlotLoadZone'')) \<and>
     capacityTotalPlotJSON (showResults ''results-capacity-total-plot'' s) = capacityTotalPlotJSON s \<and>
     callMethod (last (inflight (showResults ''results-capacity-total-plot'' s))) = GetResultsCapacityTotalPlot \<and>
     energyPlotHTMLName (showResults ''results-energy-plot'' s) =
       Some (''EnergyPlot-'' @ toString (energyPlotOptionsForm s ''energyPlotLoadZone'') @ ''-'' @ toString (energyPlotOptionsForm s ''energyPlotStage'')) \<and>
     energyPlotJSON (showResults ''results-energy-plot'' s) = energyPlotJSON s \<and>
     callMethod (last (inflight (showResults ''results-energy-plot'' s))) = GetResultsEnergyPlot \<and>
     costPlotHTMLName (showResults ''results-cost-plot'' s) =
       Some (''CostPlot-'' @ toString (costPlotOptionsForm s ''costPlotLoadZone'') @ ''-'' @ toString (costPlotOptionsForm s ''costPlotStage'')) \<and>
     costPlotJSON (showResults ''results-cost-plot'' s) = costPlotJSON s \<and>
     callMethod (last (inflight (showResults ''results-cost-plot'' s))) = GetResultsCostPlot \<and>
     capacityFactorPlotHTMLName (showResults ''results-capacity-factor-plot'' s) =
       Some (''CapFactorPlot-'' @ toString (capacityFactorPlotOptionsForm s ''capacityFactorPlotLoadZone'') @ ''-'' @ toString (capacityFactorPlotOptionsForm s ''capacityFactorPlotStage'')) \<and>
     capacityFactorPlotJSON (showResults ''results-capacity-factor-plot'' s) = capacityFactorPlotJSON s \<and>
     callMethod (last (inflight (showResults ''results-capacity-factor-plot'' s))) = GetResultsCapacityFactorPlot"
  by (simp only: name_showResults_plot json_showResults_plot inflight_showResults_plot simp_thms)

subsection \<open>The name of the HTML element\<close>

lemma name_same_select_values:
  fixes s t :: "('r, 'p) component"
  assumes "f \<in> set (formStructures po)" and "filterValues f s = filterValues f t"
  shows "htmlName (viewKey f) (showResults (viewKey f) s) =
         htmlName (viewKey f) (showResults (viewKey f) t)"
  using assms
  by (cases rule: formStructures_cases)
    (simp_all add: formStructures_nth filterValues_eq htmlName_plot name_showResults_plot)

lemma name_one_select_value_changed:
  fixes s t :: "('r, 'p) component"
  assumes "f \<in> set (formStructures po)"
    and "i < length (filterValues f s)"
    and "filterValues f t = (filterValues f s)[i := v]"
    and "toString v \<noteq> toString (filterValues f s ! i)"
  shows "htmlName (viewKey f) (showResults (viewKey f) s) \<noteq>
         htmlName (viewKey f) (showResults (viewKey f) t)"
  using assms
  by (cases rule: formStructures_cases)
    (auto simp: formStructures_nth filterValues_eq htmlName_plot name_showResults_plot
      less_Suc_eq)

text \<open>
  C1, as the code has it. For every plot view the name of the HTML element that an
  activation assigns is a function of the key and of the values of the select controls
  (load zone, and horizon or stage): two states that agree on them get the same name,
  whatever else differs, the y-axis maximum included. Replacing one select value by a
  value that \<open>toString\<close> renders differently gives a different name.
\<close>

theorem render_target_name_function_of_select_values:
  fixes s t :: "('r, 'p) component"
  assumes "f \<in> set (formStructures po)"
  shows "(filterValues f s = filterValues f t \<longrightarrow>
            htmlName (viewKey f) (showResults (viewKey f) s) =
            htmlName (viewKey f) (showResults (viewKey f) t)) \<and>
         (i < length (filterValues f s) \<and> filterValues f t = (filterValues f s)[i := v] \<and>
          toString v \<noteq> toString (filterValues f s ! i) \<longrightarrow>
            htmlName (viewKey f) (showResults (viewKey f) s) \<noteq>
            htmlName (viewKey f) (showResults (viewKey f) t))"
  using name_same_select_values[OF assms, of s t]
    name_one_select_value_changed[OF assms, of i s t v]
  by blast

theorem render_target_name_function_of_select_values_witness:
  "(let po = \<lparr>loadZoneOptions = [''ZoneA''], horizonOptions = [''2030'', ''2031''], stageOptions = []\<rparr>;
        f = formStructures po ! 0;
        page = \<lambda>loadZone horizon yMax.
          (ngOnInit (newComponent 42 '''') :: (nat, nat) component)
            \<lparr>dispatchPlotOptionsForm :=
               (\<lambda>c. JUndefined)(''dispatchPlotLoadZone'' := loadZone,
                 ''dispatchPlotHorizon'' := horizon, ''dispatchPlotYMax'' := yMax)\<rparr>
    in f \<in> set (formStructures po) \<and>
       htmlName (viewKey f) (showResults (viewKey f) (page (JStr ''ZoneA'') (JStr ''2030'') JNull)) =
       htmlName (viewKey f) (showResults (viewKey f) (page (JStr ''ZoneA'') (JStr ''2030'') (JNum 100))) \<and>
       htmlName (viewKey f) (showResults (viewKey f) (page (JStr ''ZoneA'') (JStr ''2030'') JNull)) \<noteq>
       htmlName (viewKey f) (showResults (viewKey f) (page (JStr ''ZoneA'') (JStr ''2031'') JNull)))"
proof -
  let ?po = "\<lparr>loadZoneOptions = [''ZoneA''], horizonOptions = [''2030'', ''2031''], stageOptions = []\<rparr>"
  let ?f = "formStructures ?po ! 0"
  let ?page = "\<lambda>loadZone horizon yMax.
          (ngOnInit (newComponent 42 '''') :: (nat, nat) component)
            \<lparr>dispatchPlotOptionsForm :=
               (\<lambda>c. JUndefined)(''dispatchPlotLoadZone'' := loadZone,
                 ''dispatchPlotHorizon'' := horizon, ''dispatchPlotYMax'' := yMax)\<rparr>"
  have mem: "?f \<in> set (formStructures ?po)"
    by (simp add: length_formStructures)
  have vals: "filterValues ?f (?page l h y) = [l, h]" for l h y
    by (simp add: filterValues_eq formStructures_nth)
  have same: "htmlName (viewKey ?f) (showResults (viewKey ?f) (?page (JStr ''ZoneA'') (JStr ''2030'') JNull)) =
       htmlName (viewKey ?f) (showResults (viewKey ?f) (?page (JStr ''ZoneA'') (JStr ''2030'') (JNum 100)))"
    using render_target_name_function_of_select_values[OF mem,
        where s = "?page (JStr ''ZoneA'') (JStr ''2030'') JNull"
          and t = "?page (JStr ''ZoneA'') (JStr ''2030'') (JNum 100)"]
    by (simp only: vals simp_thms)
  have other: "htmlName (viewKey ?f) (showResults (viewKey ?f) (?page (JStr ''ZoneA'') (JStr ''2030'') JNull)) \<noteq>
       htmlName (viewKey ?f) (showResults (viewKey ?f) (?page (JStr ''ZoneA'') (JStr ''2031'') JNull))"
    using render_target_name_function_of_select_values[OF mem,
        where i = "Suc 0" and s = "?page (JStr ''ZoneA'') (JStr ''2030'') JNull"
          and t = "?page (JStr ''ZoneA'') (JStr ''2031'') JNull" and v = "JStr ''2031''"]
    unfolding vals by simp
  from mem same other show ?thesis
    unfolding Let_def by (intro conjI)
qed

text \<open>
  The claim as the spec words it fails where it speaks of the y-axis maximum, which no
  name contains: with load zone \<open>ZoneA\<close> and horizon \<open>2030\<close>, the dispatch plot gets the
  same name for the y-axis maxima \<open>null\<close> and \<open>100\<close>. It also fails for a select value
  replaced by another with the same rendering: the load zones \<open>null\<close> and \<open>'null'\<close> give
  the same name.
\<close>

theorem render_target_name_ignores_ymax:
  "(let page = \<lambda>loadZone horizon yMax.
          (ngOnInit (newComponent 42 '''') :: (nat, nat) component)
            \<lparr>dispatchPlotOptionsForm :=
               (\<lambda>c. JUndefined)(''dispatchPlotLoadZone'' := loadZone,
                 ''dispatchPlotHorizon'' := horizon, ''dispatchPlotYMax'' := yMax)\<rparr>
    in dispatchPlotHTMLName
         (showResults ''results-dispatch-plot'' (page (JStr ''ZoneA'') (JStr ''2030'') JNull)) =
         Some ''dispatchPlot-ZoneA-2030'' \<and>
       dispatchPlotHTMLName
         (showResults ''results-dispatch-plot'' (page (JStr ''ZoneA'') (JStr ''2030'') (JNum 100))) =
         Some ''dispatchPlot-ZoneA-2030'' \<and>
       dispatchPlotHTMLName
         (showResults ''results-dispatch-plot'' (page JNull (JStr ''2030'') JNull)) =
         Some ''dispatchPlot-null-2030'' \<and>
       dispatchPlotHTMLName
         (showResults ''results-dispatch-plot'' (page (JStr ''null'') (JStr ''2030'') JNull)) =
         Some ''dispatchPlot-null-2030'')"
  by (simp add: Let_def name_showResults_plot)

subsection \<open>Table views\<close>


lemma showResults_table:
  "showResults ''results-project-capacity'' s =
     getResultsProjectCapacity (routeParamsId s) (makeView (changeResultsToView ''results-project-capacity'' s))"
  "showResults ''results-project-retirements'' s =
     getResultsProjectRetirements (routeParamsId s) (makeView (changeResultsToView ''results-project-retirements'' s))"
  "showResults ''results-project-new-build'' s =
     getResultsProjectNewBuild (routeParamsId s) (makeView (changeResultsToView ''results-project-new-build'' s))"
  "showResults ''results-project-dispatch'' s =
     getResultsProjectDispatch (routeParamsId s) (makeView (changeResultsToView ''results-project-dispatch'' s))"
  "showResults ''results-project-carbon'' s =
     getResultsProjectCarbon (routeParamsId s) (makeView (changeResultsToView ''results-project-carbon'' s))"
  "showResults ''results-transmission-capacity'' s =
     getResultsTransmissionCapacity (routeParamsId s) (makeView (changeResultsToView ''results-transmission-capacity'' s))"
  "showResults ''results-transmission-flows'' s =
     getResultsTransmissionFlows (routeParamsId s) (makeView (changeResultsToView ''results-transmission-flows'' s))"
  "showResults ''results-imports-exports'' s =
     getResultsImportsExports (routeParamsId s) (makeView (changeResultsToView ''results-imports-exports'' s))"
  "showResults ''results-system-load-balance'' s =
     getResultsSystemLoadBalance (routeParamsId s) (makeView (changeResultsToView ''results-system-load-balance'' s))"
  "showResults ''results-system-rps'' s =
     getResultsSystemRPS (routeParamsId s) (makeView (changeResultsToView ''results-system-rps'' s))"
  "showResults ''results-system-carbon-cap'' s =
     getResultsSystemCarbonCap (routeParamsId s) (makeView (changeResultsToView ''results-system-carbon-cap'' s))"
  "showResults ''results-system-prm'' s =
     getResultsSystemPRM (routeParamsId s) (makeView (changeResultsToView ''results-system-prm'' s))"
  by (simp_all add: showResults_eq dataBranches_def)

lemma viewMethod_table:
  "viewMethod ''results-project-capacity'' = Some GetResultsProjectCapacity"
  "viewMethod ''results-project-retirements'' = Some GetResultsProjectRetirements"
  "viewMethod ''results-project-new-build'' = Some GetResultsProjectNewBuild"
  "viewMethod ''results-project-dispatch'' = Some GetResultsProjectDispatch"
  "viewMethod ''results-project-carbon'' = Some GetResultsProjectCarbon"
  "viewMethod ''results-transmission-capacity'' = Some GetResultsTransmissionCapacity"
  "viewMethod ''results-transmission-flows'' = Some GetResultsTransmissionFlows"
  "viewMethod ''results-imports-exports'' = Some GetResultsImportsExports"
  "viewMethod ''results-system-load-balance'' = Some GetResultsSystemLoadBalance"
  "viewMethod ''results-system-rps'' = Some GetResultsSystemRPS"
  "viewMethod ''results-system-carbon-cap'' = Some GetResultsSystemCarbonCap"
  "viewMethod ''results-system-prm'' = Some GetResultsSystemPRM"
  by (simp_all add: viewMethod_def viewMethods_def)

lemma tableRows_table:
  "tableRows ''results-project-capacity'' s = resultsProjectCapacity s"
  "tableRows ''results-project-retirements'' s = resultsProjectRetirements s"
  "tableRows ''results-project-new-build'' s = resultsProjectNewBuild s"
  "tableRows ''results-project-dispatch'' s = resultsProjectDispatch s"
  "tableRows ''results-project-carbon'' s = resultsProjectCarbon s"
  "tableRows ''results-transmission-capacity'' s = resultsTransmissionCapacity s"
  "tableRows ''results-transmission-flows'' s = resultsTransmissionFlows s"
  "tableRows ''results-imports-exports'' s = resultsImportsExports s"
  "tableRows ''results-system-load-balance'' s = resultsSystemLoadBalance s"
  "tableRows ''results-system-rps'' s = resultsSystemRPS s"
  "tableRows ''results-system-carbon-cap'' s = resultsSystemCarbonCap s"
  "tableRows ''results-system-prm'' s = resultsSystemPRM s"
  by (simp_all add: tableRows_def viewMethod_table)

lemma subscribe_table_get:
  "getResultsProjectCapacity sid s = subscribe (Call GetResultsProjectCapacity [JNum sid]) s"
  "getResultsProjectRetirements sid s = subscribe (Call GetResultsProjectRetirements [JNum sid]) s"
  "getResultsProjectNewBuild sid s = subscribe (Call GetResultsProjectNewBuild [JNum sid]) s"
  "getResultsProjectDispatch sid s = subscribe (Call GetResultsProjectDispatch [JNum sid]) s"
  "getResultsProjectCarbon sid s = subscribe (Call GetResultsProjectCarbon [JNum sid]) s"
  "getResultsTransmissionCapacity sid s = subscribe (Call GetResultsTransmissionCapacity [JNum sid]) s"
  "getResultsTransmissionFlows sid s = subscribe (Call GetResultsTransmissionFlows [JNum sid]) s"
  "getResultsImportsExports sid s = subscribe (Call GetResultsImportsExports [JNum sid]) s"
  "getResultsSystemLoadBalance sid s = subscribe (Call GetResultsSystemLoadBalance [JNum sid]) s"
  "getResultsSystemRPS sid s = subscribe (Call GetResultsSystemRPS [JNum sid]) s"
  "getResultsSystemCarbonCap sid s = subscribe (Call GetResultsSystemCarbonCap [JNum sid]) s"
  "getResultsSystemPRM sid s = subscribe (Call GetResultsSystemPRM [JNum sid]) s"
  by (simp_all add: table_get_defs)

lemma subscribe_fields:
  "calls (subscribe c s) = calls s @ [c]"
  "inflight (subscribe c s) = inflight s @ [c]"
  "allTables (subscribe c s) = allTables s"
  "allResultsForms (subscribe c s) = allResultsForms s"
  "routeParamsId (subscribe c s) = routeParamsId s"
  by (simp_all add: subscribe_def)

lemma makeView_fields:
  "inflight (makeView s) = inflight s @ [Call GetOptions [JNum (routeParamsId s)]]"
  "allTables (makeView s) = []"
  "allResultsForms (makeView s) = []"
  "routeParamsId (makeView s) = routeParamsId s"
  by (simp_all add: setup_defs Let_def)

lemma changeResultsToView_fields:
  "inflight (changeResultsToView key s) = inflight s"
  "allTables (changeResultsToView key s) = allTables s"
  "allResultsForms (changeResultsToView key s) = allResultsForms s"
  by (simp_all add: changeResultsToView_def Let_def)











lemma callback_frame:
  assumes "callback m v s = Some s'"
  shows "routeParamsId s' = routeParamsId s" and "calls s' = calls s"
    and "inflight s' = inflight s"
    and "resultsToViewSubject s' = resultsToViewSubject s"
    and "dispatchPlotOptionsForm s' = dispatchPlotOptionsForm s"
    and "capacityNewPlotOptionsForm s' = capacityNewPlotOptionsForm s"
    and "capacityRetiredPlotOptionsForm s' = capacityRetiredPlotOptionsForm s"
    and "capacityTotalPlotOptionsForm s' = capacityTotalPlotOptionsForm s"
    and "energyPlotOptionsForm s' = energyPlotOptionsForm s"
    and "costPlotOptionsForm s' = costPlotOptionsForm s"
    and "capacityFactorPlotOptionsForm s' = capacityFactorPlotOptionsForm s"
  using assms by (cases m; cases v; auto)+

lemma complete_frame:
  assumes "complete i v s = Some s'"
  shows "routeParamsId s' = routeParamsId s" and "calls s' = calls s"
    and "resultsToViewSubject s' = resultsToViewSubject s"
    and "dispatchPlotOptionsForm s' = dispatchPlotOptionsForm s"
    and "capacityNewPlotOptionsForm s' = capacityNewPlotOptionsForm s"
    and "capacityRetiredPlotOptionsForm s' = capacityRetiredPlotOptionsForm s"
    and "capacityTotalPlotOptionsForm s' = capacityTotalPlotOptionsForm s"
    and "energyPlotOptionsForm s' = energyPlotOptionsForm s"
    and "costPlotOptionsForm s' = costPlotOptionsForm s"
    and "capacityFactorPlotOptionsForm s' = capacityFactorPlotOptionsForm s"
  using assms callback_frame[of "callMethod (inflight s ! i)" v
      "s\<lparr>inflight := take i (inflight s) @ drop (Suc i) (inflight s)\<rparr>" s']
  by (simp_all add: complete_def split: if_splits)


text \<open>
  C3. The scenario of the spec, from any state of the page whose route gives scenario
  \<open>42\<close> and whose dispatch form holds load zone \<open>ZoneA\<close>, horizon \<open>2030\<close> and no y-axis
  maximum. Pressing the project capacity button calls the table fetch with \<open>(42)\<close>; when
  the rows arrive they are stored and are the one entry of \<open>allTables\<close>. Pressing the
  dispatch plot button next names the HTML element \<open>dispatchPlot-ZoneA-2030\<close> and calls
  the plot fetch with \<open>(42, 'ZoneA', '2030', 'default')\<close>.
\<close>

theorem scenario_42_capacity_then_dispatch_plot:
  fixes s :: "('r, 'p) component"
  assumes "routeParamsId s = 42"
    and "dispatchPlotOptionsForm s ''dispatchPlotLoadZone'' = JStr ''ZoneA''"
    and "dispatchPlotOptionsForm s ''dispatchPlotHorizon'' = JStr ''2030''"
    and "dispatchPlotOptionsForm s ''dispatchPlotYMax'' = JNull"
  shows "issued s (showResults ''results-project-capacity'' s) =
      [Call GetOptions [JNum 42], Call GetResultsProjectCapacity [JNum 42]] \<and>
    (\<exists>s1. complete (Suc (length (inflight s))) (Rows rows)
            (showResults ''results-project-capacity'' s) = Some s1 \<and>
          resultsProjectCapacity s1 = Some rows \<and>
          allTables s1 = [rows] \<and>
          dispatchPlotHTMLName (showResults ''results-dispatch-plot'' s1) =
            Some ''dispatchPlot-ZoneA-2030'' \<and>
          issued s1 (showResults ''results-dispatch-plot'' s1) =
            [Call GetOptions [JNum 42],
             Call GetResultsDispatchPlot [JNum 42, JStr ''ZoneA'', JStr ''2030'', JStr ''default'']])"
proof -
  let ?a = "showResults ''results-project-capacity'' s"
  have a: "?a = subscribe (Call GetResultsProjectCapacity [JNum 42])
      (makeView (changeResultsToView ''results-project-capacity'' s))"
    by (simp add: showResults_table subscribe_table_get assms(1))
  have calls: "issued s ?a = [Call GetOptions [JNum 42], Call GetResultsProjectCapacity [JNum 42]]"
    by (simp add: a issued_def subscribe_fields calls_makeView calls_changeResultsToView
        routeParamsId_changeResultsToView assms(1))
  have inflight: "inflight ?a =
      inflight s @ [Call GetOptions [JNum 42], Call GetResultsProjectCapacity [JNum 42]]"
    by (simp add: a subscribe_fields makeView_fields changeResultsToView_fields
        routeParamsId_changeResultsToView assms(1))
  have empty: "allTables ?a = []"
    by (simp add: a subscribe_fields makeView_fields)
  have form: "dispatchPlotOptionsForm ?a = dispatchPlotOptionsForm s"
    and route: "routeParamsId ?a = 42"
    by (simp_all add: a subscribe_def forms_makeView forms_changeResultsToView makeView_fields
        routeParamsId_changeResultsToView assms(1))
  obtain s1 where
    s1: "complete (Suc (length (inflight s))) (Rows rows) ?a = Some s1"
    and stored: "resultsProjectCapacity s1 = Some rows"
    and tables: "allTables s1 = [rows]"
    by (simp add: complete_def inflight nth_append empty)
  have form1: "dispatchPlotOptionsForm s1 = dispatchPlotOptionsForm s"
    and route1: "routeParamsId s1 = 42"
    using complete_frame(1,4)[OF s1] form route by simp_all
  have name: "dispatchPlotHTMLName (showResults ''results-dispatch-plot'' s1) =
      Some ''dispatchPlot-ZoneA-2030''"
    by (simp add: name_showResults_plot form1 assms)
  have plot: "issued s1 (showResults ''results-dispatch-plot'' s1) =
      [Call GetOptions [JNum 42],
       Call GetResultsDispatchPlot [JNum 42, JStr ''ZoneA'', JStr ''2030'', JStr ''default'']]"
    by (simp add: issued_def showResults_plot calls_plot_get pre_simps form1 route1 assms)
  from calls s1 stored tables name plot show ?thesis
    by blast
qed

theorem scenario_42_capacity_then_dispatch_plot_witness:
  "(let page = (ngOnInit (newComponent 42 '''') :: (string, string) component)
          \<lparr>dispatchPlotOptionsForm :=
             (dispatchPlotOptionsForm (newComponent 42 '''' :: (string, string) component))
               (''dispatchPlotLoadZone'' := JStr ''ZoneA'', ''dispatchPlotHorizon'' := JStr ''2030'')\<rparr>
    in routeParamsId page = 42 \<and>
       dispatchPlotOptionsForm page ''dispatchPlotLoadZone'' = JStr ''ZoneA'' \<and>
       dispatchPlotOptionsForm page ''dispatchPlotHorizon'' = JStr ''2030'' \<and>
       dispatchPlotOptionsForm page ''dispatchPlotYMax'' = JNull \<and>
       issued page (showResults ''results-project-capacity'' page) =
         [Call GetOptions [JNum 42], Call GetResultsProjectCapacity [JNum 42]] \<and>
       (\<exists>s1. complete 2 (Rows ''rows'') (showResults ''results-project-capacity'' page) = Some s1 \<and>
          resultsProjectCapacity s1 = Some ''rows'' \<and>
          allTables s1 = [''rows''] \<and>
          dispatchPlotHTMLName (showResults ''results-dispatch-plot'' s1) =
            Some ''dispatchPlot-ZoneA-2030'' \<and>
          issued s1 (showResults ''results-dispatch-plot'' s1) =
            [Call GetOptions [JNum 42],
             Call GetResultsDispatchPlot [JNum 42, JStr ''ZoneA'', JStr ''2030'', JStr ''default'']]))"
proof -
  let ?page = "(ngOnInit (newComponent 42 '''') :: (string, string) component)
          \<lparr>dispatchPlotOptionsForm :=
             (dispatchPlotOptionsForm (newComponent 42 '''' :: (string, string) component))
               (''dispatchPlotLoadZone'' := JStr ''ZoneA'', ''dispatchPlotHorizon'' := JStr ''2030'')\<rparr>"
  have h: "routeParamsId ?page = 42"
    "dispatchPlotOptionsForm ?page ''dispatchPlotLoadZone'' = JStr ''ZoneA''"
    "dispatchPlotOptionsForm ?page ''dispatchPlotHorizon'' = JStr ''2030''"
    "dispatchPlotOptionsForm ?page ''dispatchPlotYMax'' = JNull"
    unfolding ngOnInit_new
    by (simp_all add: makeView_fields forms_makeView newComponent_def newFormGroup_def)
  have len: "Suc (length (inflight ?page)) = 2"
    by (simp add: ngOnInit_new makeView_new)
  from scenario_42_capacity_then_dispatch_plot[OF h, of "''rows''"] h show ?thesis
    unfolding Let_def len by blast
qed


subsection \<open>Every pass fetches the options\<close>

lemma length_dataBranches:
  "length (dataBranches :: (string \<times> (int \<Rightarrow> ('r, 'p) component \<Rightarrow> ('r, 'p) component)) list) = 19"
  by (simp add: dataBranches_def)

lemma branch_forms:
  "(key, get) \<in> set dataBranches \<Longrightarrow> allResultsForms (get sid s) = allResultsForms s"
  unfolding dataBranches_def
  by (auto simp: table_get_defs plot_get_defs subscribe_def Let_def)

lemma calls_ngOnInit:
  fixes s :: "('r, 'p) component"
  shows "\<exists>cs. calls (ngOnInit s) = calls s @ Call GetOptions [JNum (routeParamsId s)] # cs \<and>
          list_all isResultFetch cs"
proof (cases "map_of dataBranches (resultsToViewSubject s)
    :: (int \<Rightarrow> ('r, 'p) component \<Rightarrow> ('r, 'p) component) option")
  case None
  then show ?thesis
    by (simp add: ngOnInit_eq calls_makeView)
next
  case (Some get)
  then have "(resultsToViewSubject s, get) \<in> set dataBranches"
    by (rule map_of_SomeD)
  from branch_calls[OF this, of "routeParamsId s" "makeView s"] Some show ?thesis
    by (auto simp: ngOnInit_eq calls_makeView)
qed

lemma forms_ngOnInit:
  fixes s :: "('r, 'p) component"
  shows "allResultsForms (ngOnInit s) = []"
proof (cases "map_of dataBranches (resultsToViewSubject s)
    :: (int \<Rightarrow> ('r, 'p) component \<Rightarrow> ('r, 'p) component) option")
  case None
  then show ?thesis
    by (simp add: ngOnInit_eq makeView_fields)
next
  case (Some get)
  then have "(resultsToViewSubject s, get) \<in> set dataBranches"
    by (rule map_of_SomeD)
  from branch_forms[OF this] Some show ?thesis
    by (simp add: ngOnInit_eq makeView_fields)
qed

lemma optionFetches_ngOnInit: "optionFetches (ngOnInit s) = Suc (optionFetches s)"
proof -
  from calls_ngOnInit[of s] obtain cs where
    "calls (ngOnInit s) = calls s @ Call GetOptions [JNum (routeParamsId s)] # cs"
    and "list_all isResultFetch cs"
    by blast
  moreover from this(2) have "filter (\<lambda>c. callMethod c = GetOptions) cs = []"
    by (simp add: list_all_iff isResultFetch_def filter_empty_conv)
  ultimately show ?thesis
    by (simp add: optionFetches_def)
qed

lemma optionFetches_showResults: "optionFetches (showResults key s) = Suc (optionFetches s)"
  by (simp add: showResults_def optionFetches_ngOnInit)
    (simp add: optionFetches_def calls_changeResultsToView)

lemma optionFetches_run:
  "run evs s = Some s' \<Longrightarrow>
     optionFetches s' = optionFetches s + length (filter isShowResults evs)"
proof (induction evs arbitrary: s)
  case Nil
  then show ?case by simp
next
  case (Cons e evs)
  show ?case
  proof (cases e)
    case (ShowResults key)
    with Cons.prems have "run evs (showResults key s) = Some s'"
      by simp
    from Cons.IH[OF this] ShowResults show ?thesis
      by (simp add: optionFetches_showResults)
  next
    case (Complete i v)
    with Cons.prems obtain t where t: "complete i v s = Some t" and "run evs t = Some s'"
      by (auto split: option.splits)
    from Cons.IH[OF this(2)] complete_frame(2)[OF t] Complete show ?thesis
      by (simp add: optionFetches_def)
  qed
qed

lemma complete_options:
  assumes "i < length (inflight t)" and "callMethod (inflight t ! i) = GetOptions"
  shows "\<exists>t'. complete i (PlotOptions po) t = Some t' \<and>
           allResultsForms t' = allResultsForms t @ formStructures po"
  using assms by (simp add: complete_def)


lemma newComponent_fields:
  "routeParamsId (newComponent sid sel) = sid"
  "calls (newComponent sid sel) = []"
  "inflight (newComponent sid sel) = []"
  "allResultsForms (newComponent sid sel) = []"
  "allTables (newComponent sid sel) = []"
  by (simp_all add: newComponent_def)

text \<open>
  C5, as the code has it. Every pass through \<open>ngOnInit\<close> calls \<open>getOptions\<close> once, with
  the scenario id of the route: once when the page is entered and once more for every
  button pressed, so that after any run of the page the number of calls is one more than
  the number of activations. Each activation also empties \<open>allResultsForms\<close>, the list
  that holds the option lists; the list is filled again when a \<open>getOptions\<close> call
  delivers, with the seven form structures built from what was delivered.
\<close>

theorem options_fetched_on_every_pass:
  fixes s s' t :: "('r, 'p) component"
  shows "filter (\<lambda>c. callMethod c = GetOptions) (issued s (showResults key s)) =
           [Call GetOptions [JNum (routeParamsId s)]] \<and>
         allResultsForms (showResults key s) = [] \<and>
         (i < length (inflight t) \<and> callMethod (inflight t ! i) = GetOptions \<longrightarrow>
            (\<exists>t'. complete i (PlotOptions po) t = Some t' \<and>
                  allResultsForms t' = allResultsForms t @ formStructures po)) \<and>
         (run evs (ngOnInit s) = Some s' \<longrightarrow>
            optionFetches s' = optionFetches s + 1 + length (filter isShowResults evs))"
proof -
  let ?c = "changeResultsToView key s"
  from calls_ngOnInit[of ?c] obtain cs where
    "calls (showResults key s) = calls s @ Call GetOptions [JNum (routeParamsId s)] # cs"
    and "list_all isResultFetch cs"
    by (auto simp: showResults_def calls_changeResultsToView routeParamsId_changeResultsToView)
  moreover from this(2) have "filter (\<lambda>c. callMethod c = GetOptions) cs = []"
    by (simp add: list_all_iff isResultFetch_def filter_empty_conv)
  ultimately have one: "filter (\<lambda>c. callMethod c = GetOptions) (issued s (showResults key s)) =
      [Call GetOptions [JNum (routeParamsId s)]]"
    by (simp add: issued_def)
  have forms: "allResultsForms (showResults key s) = []"
    by (simp add: showResults_def forms_ngOnInit)
  have count: "optionFetches s' = optionFetches s + 1 + length (filter isShowResults evs)"
    if "run evs (ngOnInit s) = Some s'"
    using optionFetches_run[OF that] by (simp add: optionFetches_ngOnInit)
  from one forms count complete_options[of i t po] show ?thesis
    by blast
qed

theorem options_fetched_on_every_pass_witness:
  "(let page = ngOnInit (newComponent 42 '''') :: (nat, nat) component;
        po = \<lparr>loadZoneOptions = [''ZoneA''], horizonOptions = [''2030''], stageOptions = [''1'']\<rparr>
    in 0 < length (inflight page) \<and> callMethod (inflight page ! 0) = GetOptions \<and>
       map_option allResultsForms (complete 0 (PlotOptions po) page) = Some (formStructures po) \<and>
       map_option optionFetches
         (run [ShowResults ''results-system-rps'', Complete 0 (PlotOptions po),
               ShowResults ''results-cost-plot'']
            page) = Some 3)"
proof -
  let ?new = "newComponent 42 '''' :: (nat, nat) component"
  let ?page = "ngOnInit ?new"
  let ?po = "\<lparr>loadZoneOptions = [''ZoneA''], horizonOptions = [''2030''], stageOptions = [''1'']\<rparr>"
  let ?evs = "[ShowResults ''results-system-rps'', Complete 0 (PlotOptions ?po),
            ShowResults ''results-cost-plot''] :: (nat, nat) event list"
  have flight: "0 < length (inflight ?page)" "callMethod (inflight ?page ! 0) = GetOptions"
    by (simp_all add: ngOnInit_new makeView_new)
  have forms: "allResultsForms ?page = []"
    by (simp add: forms_ngOnInit)
  have "0 < length (inflight (showResults ''results-system-rps'' ?page))"
    by (simp add: showResults_table subscribe_table_get subscribe_fields makeView_fields)
  then have "complete 0 (PlotOptions ?po) (showResults ''results-system-rps'' ?page) \<noteq> None"
    by (simp add: complete_def showResults_table subscribe_table_get subscribe_fields
        makeView_fields changeResultsToView_fields ngOnInit_new newComponent_fields)
  then obtain s' where run: "run ?evs ?page = Some s'"
    by auto
  have zero: "optionFetches ?new = 0"
    by (simp add: optionFetches_def newComponent_def)
  from options_fetched_on_every_pass[where t = ?page and i = 0 and po = ?po
      and s = ?new and evs = ?evs and s' = s'] flight forms run zero
  show ?thesis
    unfolding Let_def by auto
qed

text \<open>
  The claim as the spec words it has one \<open>getOptions\<close> call per scenario and no
  activation touching the option lists. On a page entered for scenario \<open>42\<close> whose options
  have arrived, pressing one button calls \<open>getOptions\<close> a second time with the same
  scenario id and leaves no form structure where there were seven.
\<close>

theorem options_fetched_again_by_activation:
  "(let page = ngOnInit (newComponent 42 '''') :: (nat, nat) component;
        po = \<lparr>loadZoneOptions = [''ZoneA''], horizonOptions = [''2030''], stageOptions = [''1'']\<rparr>
    in map_option (\<lambda>t. (length (allResultsForms t), calls t)) (complete 0 (PlotOptions po) page) =
         Some (7, [Call GetOptions [JNum 42]]) \<and>
       map_option
         (\<lambda>t. (length (allResultsForms (showResults ''results-project-capacity'' t)),
               calls (showResults ''results-project-capacity'' t)))
         (complete 0 (PlotOptions po) page) =
         Some (0, [Call GetOptions [JNum 42], Call GetOptions [JNum 42],
                   Call GetResultsProjectCapacity [JNum 42]]))"
  unfolding ngOnInit_new Let_def
  by (simp add: complete_def newComponent_fields makeView_fields length_formStructures
      showResults_table subscribe_table_get subscribe_fields calls_makeView
      calls_changeResultsToView changeResultsToView_fields routeParamsId_changeResultsToView)


subsection \<open>Results of the other views\<close>

text \<open>The result of a view is read from the twenty-six result fields alone.\<close>

lemma viewResult_cong:
  assumes "resultsProjectCapacity s' = resultsProjectCapacity s"
    and "resultsProjectRetirements s' = resultsProjectRetirements s"
    and "resultsProjectNewBuild s' = resultsProjectNewBuild s"
    and "resultsProjectDispatch s' = resultsProjectDispatch s"
    and "resultsProjectCarbon s' = resultsProjectCarbon s"
    and "resultsTransmissionCapacity s' = resultsTransmissionCapacity s"
    and "resultsTransmissionFlows s' = resultsTransmissionFlows s"
    and "resultsImportsExports s' = resultsImportsExports s"
    and "resultsSystemLoadBalance s' = resultsSystemLoadBalance s"
    and "resultsSystemRPS s' = resultsSystemRPS s"
    and "resultsSystemCarbonCap s' = resultsSystemCarbonCap s"
    and "resultsSystemPRM s' = resultsSystemPRM s"
    and "dispatchPlotJSON s' = dispatchPlotJSON s"
    and "dispatchPlotHTMLName s' = dispatchPlotHTMLName s"
    and "capacityNewPlotJSON s' = capacityNewPlotJSON s"
    and "capacityNewPlotHTMLName s' = capacityNewPlotHTMLName s"
    and "capacityRetiredPlotJSON s' = capacityRetiredPlotJSON s"
    and "capacityRetiredPlotHTMLName s' = capacityRetiredPlotHTMLName s"
    and "capacityTotalPlotJSON s' = capacityTotalPlotJSON s"
    and "capacityTotalPlotHTMLName s' = capacityTotalPlotHTMLName s"
    and "energyPlotJSON s' = energyPlotJSON s"
    and "energyPlotHTMLName s' = energyPlotHTMLName s"
    and "costPlotJSON s' = costPlotJSON s"
    and "costPlotHTMLName s' = costPlotHTMLName s"
    and "capacityFactorPlotJSON s' = capacityFactorPlotJSON s"
    and "capacityFactorPlotHTMLName s' = capacityFactorPlotHTMLName s"
  shows "viewResult A s' = viewResult A s"
proof (cases "viewMethod A")
  case None
  then show ?thesis
    by (simp add: viewResult_def tableRows_def plotJSON_def htmlName_def)
next
  case (Some m)
  then show ?thesis
    using assms
    by (cases m) (simp_all add: viewResult_def tableRows_def plotJSON_def htmlName_def)
qed

lemma viewResult_changeResultsToView: "viewResult A (changeResultsToView key s) = viewResult A s"
  by (rule viewResult_cong) (simp_all add: changeResultsToView_def Let_def)

lemma viewResult_makeView: "viewResult A (makeView s) = viewResult A s"
  by (rule viewResult_cong) (simp_all add: setup_defs Let_def)

lemma viewResult_subscribe: "viewResult A (subscribe c s) = viewResult A s"
  by (rule viewResult_cong) (simp_all add: subscribe_def)

lemma viewResult_inflight: "viewResult A (s\<lparr>inflight := cs\<rparr>) = viewResult A s"
  by (rule viewResult_cong) simp_all

text \<open>A plot method changes the result of its own view alone.\<close>

lemma viewResult_other_method:
  assumes "viewMethod A \<noteq> Some m"
  shows
    "m = GetResultsDispatchPlot \<Longrightarrow> viewResult A (getResultsDispatchPlot sid s) = viewResult A s"
    "m = GetResultsCapacityNewPlot \<Longrightarrow> viewResult A (getResultsCapacityNewPlot sid s) = viewResult A s"
    "m = GetResultsCapacityRetiredPlot \<Longrightarrow> viewResult A (getResultsCapacityRetiredPlot sid s) = viewResult A s"
    "m = GetResultsCapacityTotalPlot \<Longrightarrow> viewResult A (getResultsCapacityTotalPlot sid s) = viewResult A s"
    "m = GetResultsEnergyPlot \<Longrightarrow> viewResult A (getResultsEnergyPlot sid s) = viewResult A s"
    "m = GetResultsCostPlot \<Longrightarrow> viewResult A (getResultsCostPlot sid s) = viewResult A s"
    "m = GetResultsCapacityFactorPlot \<Longrightarrow> viewResult A (getResultsCapacityFactorPlot sid s) = viewResult A s"
  using assms
  by (cases "viewMethod A";
      auto simp: viewResult_def tableRows_def plotJSON_def htmlName_def plot_get_defs
        subscribe_def Let_def split: service_method.splits)+

lemma viewResult_callback:
  assumes "callback m v s = Some s'" and "viewMethod A \<noteq> Some m"
  shows "viewResult A s' = viewResult A s"
proof (cases "viewMethod A")
  case None
  then show ?thesis
    by (simp add: viewResult_def tableRows_def plotJSON_def htmlName_def)
next
  case (Some a)
  with assms(2) have "a \<noteq> m"
    by simp
  with assms(1) Some show ?thesis
    by (cases m; cases v; simp; cases a;
        auto simp: viewResult_def tableRows_def plotJSON_def htmlName_def)
qed


lemma map_of_same_value:
  assumes "distinct (map snd xs)" and "map_of xs a = Some v" and "map_of xs b = Some v"
  shows "a = b"
  using assms
proof (induction xs)
  case Nil
  then show ?case by simp
next
  case (Cons x xs)
  obtain k w where x: "x = (k, w)" by (cases x)
  show ?case
  proof (cases "a = k")
    case True
    show ?thesis
    proof (cases "b = k")
      case True
      with \<open>a = k\<close> show ?thesis by simp
    next
      case False
      with Cons.prems x True have "w = v" and "map_of xs b = Some v"
        by simp_all
      then have "v \<in> snd ` set xs" and "v \<notin> snd ` set xs"
        using Cons.prems(1) x by (auto dest: map_of_SomeD intro: rev_image_eqI)
      then show ?thesis by simp
    qed
  next
    case False
    show ?thesis
    proof (cases "b = k")
      case True
      with Cons.prems x False have "w = v" and "map_of xs a = Some v"
        by simp_all
      then have "v \<in> snd ` set xs" and "v \<notin> snd ` set xs"
        using Cons.prems(1) x by (auto dest: map_of_SomeD intro: rev_image_eqI)
      then show ?thesis by simp
    next
      case False
      with Cons.prems x \<open>a \<noteq> k\<close> have "map_of xs a = Some v" and "map_of xs b = Some v"
        by simp_all
      with Cons.IH Cons.prems(1) show ?thesis by simp
    qed
  qed
qed

lemma distinct_viewMethods: "distinct (map snd viewMethods)"
  by (simp add: viewMethods_def)


lemma viewMethod_inj:
  assumes "viewMethod A = Some m" and "viewMethod B = Some m"
  shows "A = B"
  using distinct_viewMethods assms unfolding viewMethod_def
  by (rule map_of_same_value)

lemma GetOptions_not_viewMethods: "GetOptions \<notin> snd ` set viewMethods"
  by (simp add: viewMethods_def)

lemma viewMethod_not_options: "viewMethod A \<noteq> Some GetOptions"
proof
  assume "viewMethod A = Some GetOptions"
  then have "(A, GetOptions) \<in> set viewMethods"
    unfolding viewMethod_def by (rule map_of_SomeD)
  then have "GetOptions \<in> snd ` set viewMethods"
    by (rule rev_image_eqI) simp
  with GetOptions_not_viewMethods show False
    by simp
qed


lemma branch_method:
  fixes get :: "int \<Rightarrow> ('r, 'p) component \<Rightarrow> ('r, 'p) component"
  assumes "(key, get) \<in> set dataBranches"
  shows "\<exists>m. viewMethod key = Some m \<and>
    (\<forall>A sid s. viewMethod A \<noteq> Some m \<longrightarrow> viewResult A (get sid s) = viewResult A s) \<and>
    (\<forall>sid s. \<exists>c. inflight (get sid s) = inflight s @ [c] \<and> callMethod c = m)"
  using assms unfolding dataBranches_def
  by (auto simp: viewMethod_table viewMethod_plot subscribe_table_get viewResult_subscribe
      subscribe_fields viewResult_other_method inflight_plot_get calls_plot_get)


lemma showResults_unknown:
  assumes "key \<notin> set viewKeys"
  shows "showResults key s = makeView (changeResultsToView key s)"
proof -
  have "map_of dataBranches key = (None :: (int \<Rightarrow> ('a, 'b) component \<Rightarrow> ('a, 'b) component) option)"
    using assms by (simp add: map_of_eq_None_iff keys_of_branches flip: set_map)
  then show ?thesis
    by (simp add: showResults_eq)
qed

lemma showResults_other_view:
  fixes s :: "('r, 'p) component"
  assumes "A \<noteq> B"
  shows "viewResult A (showResults B s) = viewResult A s \<and>
    (\<forall>c \<in> set (inflight (showResults B s)).
       c \<in> set (inflight s) \<or> viewMethod A \<noteq> Some (callMethod c))"
proof (cases "map_of dataBranches B
    :: (int \<Rightarrow> ('r, 'p) component \<Rightarrow> ('r, 'p) component) option")
  case None
  then have "showResults B s = makeView (changeResultsToView B s)"
    by (simp add: showResults_eq)
  then show ?thesis
    by (auto simp: viewResult_makeView viewResult_changeResultsToView makeView_fields
        changeResultsToView_fields viewMethod_not_options)
next
  case (Some get)
  let ?pre = "makeView (changeResultsToView B s)"
  from Some have eq: "showResults B s = get (routeParamsId s) ?pre"
    by (simp add: showResults_eq)
  from Some have "(B, get) \<in> set dataBranches"
    by (rule map_of_SomeD)
  from branch_method[OF this] obtain m where
    m: "viewMethod B = Some m"
    and keep: "\<And>A sid s. viewMethod A \<noteq> Some m \<Longrightarrow> viewResult A (get sid s) = viewResult A s"
    and flight: "\<And>sid s. \<exists>c. inflight (get sid s) = inflight s @ [c] \<and> callMethod c = m"
    by blast
  have other: "viewMethod A \<noteq> Some m"
    using viewMethod_inj[OF _ m] assms by blast
  from flight[of "routeParamsId s" ?pre] obtain c where
    c: "inflight (showResults B s) = inflight ?pre @ [c]" "callMethod c = m"
    unfolding eq by blast
  have "viewResult A (showResults B s) = viewResult A s"
    by (simp add: eq keep[OF other] viewResult_makeView viewResult_changeResultsToView)
  moreover have "\<forall>c \<in> set (inflight (showResults B s)).
       c \<in> set (inflight s) \<or> viewMethod A \<noteq> Some (callMethod c)"
    using c other
    by (auto simp: makeView_fields changeResultsToView_fields viewMethod_not_options)
  ultimately show ?thesis
    by blast
qed

lemma complete_other_view:
  assumes "complete i v s = Some s'"
    and "\<forall>c \<in> set (inflight s). viewMethod A \<noteq> Some (callMethod c)"
  shows "viewResult A s' = viewResult A s \<and>
    (\<forall>c \<in> set (inflight s'). viewMethod A \<noteq> Some (callMethod c))"
proof -
  let ?t = "s\<lparr>inflight := take i (inflight s) @ drop (Suc i) (inflight s)\<rparr>"
  from assms(1) have i: "i < length (inflight s)"
    and cb: "callback (callMethod (inflight s ! i)) v ?t = Some s'"
    by (simp_all add: complete_def split: if_splits)
  from i assms(2) have "viewMethod A \<noteq> Some (callMethod (inflight s ! i))"
    by simp
  from viewResult_callback[OF cb this] have "viewResult A s' = viewResult A s"
    by (simp add: viewResult_inflight)
  moreover have "set (inflight s') \<subseteq> set (inflight s)"
    using callback_frame(3)[OF cb] set_take_subset[of i "inflight s"]
      set_drop_subset[of "Suc i" "inflight s"]
    by auto
  ultimately show ?thesis
    using assms(2) by blast
qed

lemma run_other_view:
  fixes s :: "('r, 'p) component"
  assumes "run evs s = Some s'"
    and "ShowResults A \<notin> set evs"
    and "\<forall>c \<in> set (inflight s). viewMethod A \<noteq> Some (callMethod c)"
  shows "viewResult A s' = viewResult A s"
  using assms
proof (induction evs arbitrary: s)
  case Nil
  then show ?case by simp
next
  case (Cons e evs)
  show ?case
  proof (cases e)
    case (ShowResults B)
    with Cons.prems have "A \<noteq> B" and run: "run evs (showResults B s) = Some s'"
      by auto
    from showResults_other_view[OF this(1), of s] Cons.prems(3)
    have keep: "viewResult A (showResults B s) = viewResult A s"
      and "\<forall>c \<in> set (inflight (showResults B s)). viewMethod A \<noteq> Some (callMethod c)"
      by blast+
    with Cons.IH[OF run] Cons.prems(2) show ?thesis
      by simp
  next
    case (Complete i v)
    with Cons.prems obtain t where t: "complete i v s = Some t" and run: "run evs t = Some s'"
      by (auto split: option.splits)
    from complete_other_view[OF t Cons.prems(3)] Cons.IH[OF run] Cons.prems(2)
    show ?thesis
      by simp
  qed
qed


lemma run_append:
  "run (xs @ ys) s = (case run xs s of None \<Rightarrow> None | Some t \<Rightarrow> run ys t)"
  by (induction xs arbitrary: s) (simp_all split: option.splits)

text \<open>
  C7. Pressing the button of a view \<open>B\<close> changes nothing of what the component holds for
  another view \<open>A\<close>: its table rows, its plot description and the name of its HTML
  element. More generally, once no fetch of \<open>A\<close> is in flight, the result of \<open>A\<close> stays
  as it is through any run of the page in which the button of \<open>A\<close> is not pressed,
  whatever other buttons are pressed and whatever values arrive.
\<close>

theorem other_views_keep_their_results:
  fixes s s' :: "('r, 'p) component"
  shows "(A \<noteq> B \<longrightarrow> viewResult A (showResults B s) = viewResult A s) \<and>
    (list_all (\<lambda>c. viewMethod A \<noteq> Some (callMethod c)) (inflight s) \<and>
     ShowResults A \<notin> set evs \<and> run evs s = Some s' \<longrightarrow>
       viewResult A s' = viewResult A s)"
  using showResults_other_view[of A B s] run_other_view[of evs s s' A]
  by (simp add: list_all_iff)

theorem other_views_keep_their_results_witness:
  "(let page = ngOnInit (newComponent 42 '''') :: (nat, nat) component;
        A = ''results-project-capacity'';
        B = ''results-dispatch-plot'';
        evs = [ShowResults B, Complete 3 (PlotAPI 9), ShowResults ''results-system-prm'',
               Complete 4 (Rows 6), Complete 0 (PlotOptions
                 \<lparr>loadZoneOptions = [''ZoneA''], horizonOptions = [''2030''], stageOptions = [''1'']\<rparr>)]
    in map_option
         (\<lambda>s. (A \<noteq> B, viewResult A s, viewResult A (showResults B s),
               list_all (\<lambda>c. viewMethod A \<noteq> Some (callMethod c)) (inflight s),
               ShowResults A \<notin> set evs, map_option (viewResult A) (run evs s)))
         (run [ShowResults A, Complete 2 (Rows 5)] page) =
       Some (True, (Some 5, None, None), (Some 5, None, None), True, True,
             Some (Some 5, None, None)))"
proof -
  let ?page = "ngOnInit (newComponent 42 '''') :: (nat, nat) component"
  let ?A = "''results-project-capacity''"
  let ?B = "''results-dispatch-plot''"
  let ?evs = "[ShowResults ?B, Complete 3 (PlotAPI 9), ShowResults ''results-system-prm'',
               Complete 4 (Rows 6), Complete 0 (PlotOptions
                 \<lparr>loadZoneOptions = [''ZoneA''], horizonOptions = [''2030''], stageOptions = [''1'']\<rparr>)]
              :: (nat, nat) event list"
  obtain s where s: "run [ShowResults ?A, Complete 2 (Rows 5)] ?page = Some s"
    and flight: "inflight s = [Call GetOptions [JNum 42], Call GetOptions [JNum 42]]"
    and held: "viewResult ?A s = (Some 5, None, None)"
    unfolding ngOnInit_new
    by (simp add: showResults_table subscribe_table_get subscribe_fields makeView_fields
        changeResultsToView_fields routeParamsId_changeResultsToView newComponent_fields
        complete_def viewResult_def tableRows_table plotJSON_def htmlName_def viewMethod_table
        setup_defs Let_def)
  have quiet: "list_all (\<lambda>c. viewMethod ?A \<noteq> Some (callMethod c)) (inflight s)"
    by (simp add: flight viewMethod_table)
  have away: "ShowResults ?A \<notin> set ?evs"
    by simp
  have "run ([ShowResults ?A, Complete 2 (Rows 5)] @ ?evs) ?page \<noteq> None"
    unfolding ngOnInit_new
    by (simp add: showResults_table showResults_plot subscribe_table_get plot_get_defs
        setup_defs Let_def complete_def newComponent_def)
  then obtain s' where "run ([ShowResults ?A, Complete 2 (Rows 5)] @ ?evs) ?page = Some s'"
    by blast
  then have s': "run ?evs s = Some s'"
    unfolding run_append s by (simp only: option.case)
  from other_views_keep_their_results[where A = ?A and B = ?B and s = s and evs = ?evs
      and s' = s'] quiet away s'
  have "viewResult ?A (showResults ?B s) = viewResult ?A s"
    and "viewResult ?A s' = viewResult ?A s"
    by simp_all
  with s s' held quiet away show ?thesis
    unfolding Let_def by simp
qed


subsection \<open>Keys that name no view\<close>

text \<open>
  C6, as the code has it. No activation fails, whatever the key: \<open>showResults\<close> always
  returns. For a key that is none of the nineteen view keys no branch of \<open>ngOnInit\<close>
  runs: the pass calls \<open>getOptions\<close> and nothing else, and the result held for any view
  stays as it was.
\<close>

theorem unknown_key_is_ignored:
  fixes s :: "('r, 'p) component"
  shows "(\<exists>s'. activate key s = Inr s') \<and>
    (key \<notin> set viewKeys \<longrightarrow>
       issued s (showResults key s) = [Call GetOptions [JNum (routeParamsId s)]] \<and>
       viewResult A (showResults key s) = viewResult A s)"
proof -
  have "issued s (showResults key s) = [Call GetOptions [JNum (routeParamsId s)]] \<and>
      viewResult A (showResults key s) = viewResult A s"
    if "key \<notin> set viewKeys"
    unfolding showResults_unknown[OF that]
    by (simp add: issued_def calls_makeView calls_changeResultsToView
        routeParamsId_changeResultsToView viewResult_makeView viewResult_changeResultsToView)
  then show ?thesis
    by (simp add: activate_def)
qed

theorem unknown_key_is_ignored_witness:
  "(let page = (ngOnInit (newComponent 42 '''') :: (nat, nat) component)
                 \<lparr>resultsSystemRPS := Some 5\<rparr>;
        key = ''results-no-such-view''
    in key \<notin> set viewKeys \<and>
       activate key page = Inr (showResults key page) \<and>
       issued page (showResults key page) = [Call GetOptions [JNum 42]] \<and>
       viewResult ''results-system-rps'' (showResults key page) = (Some 5, None, None))"
proof -
  let ?page = "(ngOnInit (newComponent 42 '''') :: (nat, nat) component)
                 \<lparr>resultsSystemRPS := Some 5\<rparr>"
  let ?key = "''results-no-such-view''"
  have absent: "?key \<notin> set viewKeys"
    by (simp add: viewKeys_eq)
  have route: "routeParamsId ?page = 42"
    by (simp add: ngOnInit_new makeView_new)
  have held: "viewResult ''results-system-rps'' ?page = (Some 5, None, None)"
    unfolding ngOnInit_new
    by (simp add: viewResult_def tableRows_table plotJSON_def htmlName_def viewMethod_table
        setup_defs Let_def newComponent_def)
  from unknown_key_is_ignored[where key = ?key and s = ?page and A = "''results-system-rps''"]
    absent route held
  show ?thesis
    unfolding Let_def by (auto simp: activate_def)
qed

text \<open>
  The claim as the spec words it has an unknown key fail with \<open>UnknownViewKind\<close>. On a
  page entered for scenario \<open>42\<close>, activation with the key \<open>results-no-such-view\<close>, which
  names no view, returns normally, having called \<open>getOptions\<close> once more and nothing
  else.
\<close>

theorem unknown_key_raises_nothing:
  "(let page = ngOnInit (newComponent 42 '''') :: (nat, nat) component;
        key = ''results-no-such-view''
    in key \<notin> set viewKeys \<and>
       activate key page \<noteq> Inl UnknownViewKind \<and>
       (case activate key page of Inl e \<Rightarrow> None | Inr s \<Rightarrow> Some (calls s)) =
         Some [Call GetOptions [JNum 42], Call GetOptions [JNum 42]])"
proof -
  have absent: "''results-no-such-view'' \<notin> set viewKeys"
    by (simp add: viewKeys_eq)
  show ?thesis
    unfolding Let_def activate_def showResults_unknown[OF absent] ngOnInit_new
    by (simp add: absent calls_makeView calls_changeResultsToView newComponent_fields
        makeView_fields routeParamsId_changeResultsToView)
qed

end
